theory Spec2Isabelle
  imports Complex_Main "HOL-Library.Sublist" "HOL-Library.AList"
begin

section \<open>Strings\<close>

text \<open>
  A Python \<open>str\<close> is modelled as a \<open>string\<close>: the list of its code points, each a
  \<open>char\<close>. A \<open>char\<close> has eight bits, so the strings of the model are the \<open>str\<close> values
  whose code points lie below 256 (ASCII and the Latin-1 supplement). Splitting,
  stripping, joining, \<open>in\<close> and \<open>lower\<close> act on code points in Python, and so they do
  here.
\<close>

text \<open>\<open>s.split(c)\<close> for a one-character separator: the fields between the occurrences
  of \<open>c\<close>; never the empty list.\<close>

fun split_chr :: "char \<Rightarrow> string \<Rightarrow> string list" where
  "split_chr c [] = [[]]"
| "split_chr c (x # xs) =
     (if x = c then [] # split_chr c xs
      else (case split_chr c xs of
              [] \<Rightarrow> [[x]]
            | p # ps \<Rightarrow> (x # p) # ps))"

text \<open>\<open>s.split(c)[0]\<close>. The index 0 is always in range.\<close>

definition split0 :: "char \<Rightarrow> string \<Rightarrow> string" where
  "split0 c s = (case split_chr c s of [] \<Rightarrow> [] | p # ps \<Rightarrow> p)"

text \<open>\<open>s.rstrip(c)\<close> for a one-character argument: every trailing \<open>c\<close> is removed.\<close>

definition rstrip_chr :: "char \<Rightarrow> string \<Rightarrow> string" where
  "rstrip_chr c s = rev (dropWhile (\<lambda>x. x = c) (rev s))"

section \<open>downloader.py: URL normalisation and the duplicate check\<close>

text \<open>\<^verbatim>\<open>url.split('?')[0].split('#')[0].rstrip('/')\<close>\<close>

definition normalize_url :: "string \<Rightarrow> string" where
  "normalize_url url = rstrip_chr CHR ''/'' (split0 CHR ''#'' (split0 CHR ''?'' url))"

text \<open>
  The loop of \<open>is_duplicate\<close> over the keys of the tracker, in the dict's order; it
  returns at the first key whose normal form is the one looked for.
\<close>

fun is_duplicate_keys :: "string \<Rightarrow> string list \<Rightarrow> bool" where
  "is_duplicate_keys normalized [] = False"
| "is_duplicate_keys normalized (tracked_url # rest) =
     (if normalize_url tracked_url = normalized then True
      else is_duplicate_keys normalized rest)"

section \<open>metadata\_filter.py: the keyword pre-filter\<close>

text \<open>
  \<open>s.lower()\<close>. Of the code points below 256, Python's \<open>str.lower\<close> changes the
  upper-case letters \<open>A\<close> to \<open>Z\<close> (65 to 90) and the upper-case letters of the Latin-1
  supplement (192 to 222 without the multiplication sign 215), each to the code point 32
  above it; it keeps every other one, and the length of the string. The keyword lists
  are ASCII except for the keyword written with e-acute, code point 233.
\<close>

definition lower_chr :: "char \<Rightarrow> char" where
  "lower_chr c =
     (let n = (of_char c :: nat)
      in if (65 \<le> n \<and> n \<le> 90) \<or> (192 \<le> n \<and> n \<le> 222 \<and> n \<noteq> 215) then char_of (n + 32)
         else c)"

definition lower :: "string \<Rightarrow> string" where
  "lower s = map lower_chr s"

text \<open>\<open>sep.join(xs)\<close>\<close>

fun join :: "string \<Rightarrow> string list \<Rightarrow> string" where
  "join sep [] = []"
| "join sep [x] = x"
| "join sep (x # y # ys) = x @ sep @ join sep (y # ys)"

text \<open>\<open>kw in text\<close>: \<open>kw\<close> occurs in \<open>text\<close> as a contiguous substring.\<close>

fun contains :: "string \<Rightarrow> string \<Rightarrow> bool" where
  "contains kw [] = (kw = [])"
| "contains kw (c # cs) = (prefix kw (c # cs) \<or> contains kw cs)"

definition HIGH_KEYWORDS :: "string list" where
  "HIGH_KEYWORDS =
   [''restaurant'', ''cafe'', (''caf'' @ [CHR 0xE9]), ''bistro'',
    ''omakase'', ''ramen'', ''sushi'', ''pizzeria'', ''diner'', ''eatery'', ''foodtok'',
    ''foodie'', ''mukbang'', ''michelin'', ''foodcrawl'', ''food crawl'', ''food tour'',
    ''food review'', ''food spot'', ''food vlog'', ''food blog'', ''must eat'',
    ''must try'', ''best eats'', ''where to eat'', ''eating tour'', ''street food'',
    ''food guide'', ''food find'', ''food hack'', ''food rec'', ''izakaya'',
    ''trattoria'', ''gastropub'', ''hawker'', ''resto'', ''warung'', ''kuliner'',
    ''kulineran'', ''makan'', ''makanan'', ''kopitiam'', ''bakso'', ''prasmanan'',
    ''foodmap'', ''jktfood'', ''jktgo'', ''yakitori'', ''yakibuta'', ''tempura'',
    ''udon'', ''donburi'']"

definition MEDIUM_KEYWORDS :: "string list" where
  "MEDIUM_KEYWORDS =
   [''food'', ''eat'', ''eating'', ''ate'', ''brunch'', ''lunch'', ''dinner'',
    ''breakfast'', ''cook'', ''cooking'', ''recipe'', ''dish'', ''menu'', ''taste'',
    ''tasting'', ''delicious'', ''yummy'', ''hungry'', ''bao'', ''pho'', ''taco'',
    ''burger'', ''steak'', ''pasta'', ''noodle'', ''noodles'', ''bbq'', ''barbecue'',
    ''seafood'', ''dessert'', ''bakery'', ''hidden gem'', ''chef'', ''kitchen'',
    ''appetizer'', ''entree'', ''cocktail'', ''wine bar'', ''bar food'', ''dim sum'',
    ''dumpling'', ''pizza'', ''curry'', ''thai'', ''korean'', ''japanese'', ''mexican'',
    ''italian'', ''chinese'', ''vietnamese'', ''indian'', ''mediterranean'', ''greek'',
    ''french cuisine'', ''spicy'', ''crispy'', ''grilled'', ''fried'', ''roasted'',
    ''nasi'', ''mie'', ''bakmi'', ''bakmie'', ''babi'', ''ayam'', ''bebek'', ''sambal'',
    ''goreng'', ''soto'', ''enak'', ''cobain'', ''nyobain'', ''batagor'', ''cuankie'',
    ''misoa'', ''hainam'', ''tiramisu'', ''lauknya'', ''pedes'', ''viral'', ''hits'',
    ''tonkotsu'', ''matcha'', ''gyoza'', ''katsu'', ''bento'', ''onigiri'']"

definition ANTI_KEYWORDS :: "string list" where
  "ANTI_KEYWORDS =
   [''tutorial'', ''gaming'', ''makeup'', ''dance challenge'', ''fitness'', ''workout'',
    ''news'', ''politics'', ''unboxing tech'', ''coding'', ''programming'', ''skincare'',
    ''fashion haul'', ''prank'', ''diy craft'', ''home decor diy'']"

text \<open>
  The metadata dict of yt-dlp. A field is \<open>None\<close> when its key is missing or its value
  is \<open>None\<close>: \<open>metadata.get(k) or ''\<close> treats the two alike.
\<close>

record metadata =
  md_title :: "string option"
  md_description :: "string option"
  md_uploader :: "string option"
  md_tags :: "string list option"

text \<open>\<open>x or ''\<close> and \<open>x or []\<close>\<close>

definition or_empty :: "'a list option \<Rightarrow> 'a list" where
  "or_empty x = (case x of None \<Rightarrow> [] | Some s \<Rightarrow> s)"

text \<open>The text blob: \<^verbatim>\<open>f'{title} {description} {uploader} {tags}'\<close>, each part lower-cased.\<close>

definition blob :: "metadata \<Rightarrow> string" where
  "blob md =
     (let title = lower (or_empty (md_title md));
          description = lower (or_empty (md_description md));
          uploader = lower (or_empty (md_uploader md));
          tags = lower (join '' '' (or_empty (md_tags md)))
      in title @ '' '' @ description @ '' '' @ uploader @ '' '' @ tags)"

text \<open>
  One of the three loops
  \<^verbatim>\<open>for kw in KEYWORDS: if kw.lower() in text: score += w\<close>,
  started on the score so far.
\<close>

fun keyword_loop :: "int \<Rightarrow> string \<Rightarrow> string list \<Rightarrow> int \<Rightarrow> int" where
  "keyword_loop w text [] score = score"
| "keyword_loop w text (kw # kws) score =
     keyword_loop w text kws (if contains (lower kw) text then score + w else score)"

definition score_text :: "string \<Rightarrow> int" where
  "score_text text =
     (let score = 0;
          score = keyword_loop 3 text HIGH_KEYWORDS score;
          score = keyword_loop 1 text MEDIUM_KEYWORDS score;
          score = keyword_loop (- 2) text ANTI_KEYWORDS score
      in score)"

definition is_likely_restaurant :: "metadata \<Rightarrow> string" where
  "is_likely_restaurant md =
     (let score = score_text (blob md)
      in if score \<ge> 3 then ''likely''
         else if score \<ge> - 1 then ''maybe''
         else ''unlikely'')"

text \<open>How many keywords of a list occur in the text; each keyword of the list counts once.\<close>

definition matched :: "string list \<Rightarrow> string \<Rightarrow> nat" where
  "matched kws text = length (filter (\<lambda>kw. contains (lower kw) text) kws)"

text \<open>
  The score as the specification words it, for comparison with \<open>score_text\<close>: a keyword
  counts once for each of the four fields (title, description, uploader, tags) it
  occurs in.
\<close>

definition field_texts :: "metadata \<Rightarrow> string list" where
  "field_texts md =
     [lower (or_empty (md_title md)), lower (or_empty (md_description md)),
      lower (or_empty (md_uploader md)), lower (join '' '' (or_empty (md_tags md)))]"

definition occurrences_spec :: "metadata \<Rightarrow> string list \<Rightarrow> int" where
  "occurrences_spec md kws =
     int (length (concat (map (\<lambda>kw. filter (contains (lower kw)) (field_texts md)) kws)))"

definition score_per_field_spec :: "metadata \<Rightarrow> int" where
  "score_per_field_spec md =
     3 * occurrences_spec md HIGH_KEYWORDS + occurrences_spec md MEDIUM_KEYWORDS
       - 2 * occurrences_spec md ANTI_KEYWORDS"

section \<open>geocoder.py\<close>

text \<open>An exception, carrying the text that \<open>str(e)\<close> gives for it.\<close>

datatype exn = Exception string

text \<open>
  The location object of an analysis record, as decoded from JSON: its keys in order,
  each with a string or \<open>null\<close> (\<open>None\<close>). Fields are strings; the prompt of the
  analysis asks for nothing else.
\<close>

type_synonym location = "(string \<times> string option) list"

text \<open>
  \<^verbatim>\<open>if location.get(k): parts.append(location[k])\<close>: what the statement appends. A
  missing key, \<open>null\<close> and the empty string are all falsy.
\<close>

definition part :: "location \<Rightarrow> string \<Rightarrow> string list" where
  "part location k =
     (case map_of location k of
        None \<Rightarrow> []
      | Some None \<Rightarrow> []
      | Some (Some s) \<Rightarrow> if s = [] then [] else [s])"

definition query_parts :: "location \<Rightarrow> string list" where
  "query_parts location =
     part location ''specific_address'' @ part location ''neighborhood'' @
     part location ''city'' @ part location ''state_or_region'' @ part location ''country''"

definition fallback_parts :: "location \<Rightarrow> string list" where
  "fallback_parts location = part location ''city'' @ part location ''country''"

text \<open>
  One entry of the decoded response: \<open>float(item['lat'])\<close> and \<open>float(item['lon'])\<close>
  give two numbers, or one of them raises.
\<close>

datatype geo_item = Coords real real | Malformed

text \<open>
  What \<open>urlopen\<close>, \<open>read\<close> and \<open>json.loads\<close> give for one request: an exception
  (network error, timeout, undecodable body) or the decoded list.
\<close>

datatype geo_reply = Fails string | Results "geo_item list"

text \<open>
  The geocoding service: its reply to the \<open>i\<close>-th request the process sends (from 0),
  given the query. The state of the client is the list of the queries sent so far. The
  sleeps that space the requests delay them and change neither the queries nor the
  replies; they and \<open>_last_request_time\<close> are left out.
\<close>

type_synonym geo_net = "nat \<Rightarrow> string \<Rightarrow> geo_reply"

definition urlopen :: "geo_net \<Rightarrow> string \<Rightarrow> string list \<Rightarrow> geo_reply \<times> string list" where
  "urlopen net q sent = (net (length sent) q, sent @ [q])"

text \<open>\<^verbatim>\<open>lat = float(data[0]['lat']); lng = float(data[0]['lon']); return {...}\<close>,
  reached when \<open>data\<close> is not empty.\<close>

definition first_coords :: "geo_item list \<Rightarrow> exn + (real \<times> real) option" where
  "first_coords data =
     (case data of
        Coords lat lng # _ \<Rightarrow> Inr (Some (lat, lng))
      | _ \<Rightarrow> Inl (Exception ''KeyError''))"

text \<open>The body of the \<open>try\<close>: \<open>Inl\<close> is an exception leaving it.\<close>

definition geocode_try ::
  "geo_net \<Rightarrow> location \<Rightarrow> string list \<Rightarrow> string \<Rightarrow> string list \<Rightarrow>
     (exn + (real \<times> real) option) \<times> string list" where
  "geocode_try net location parts query sent =
     (case urlopen net query sent of
        (Fails e, sent1) \<Rightarrow> (Inl (Exception e), sent1)
      | (Results data, sent1) \<Rightarrow>
          if data \<noteq> [] then (first_coords data, sent1)
          else
            let fallback = fallback_parts location in
            if fallback \<noteq> [] \<and> fallback \<noteq> parts then
              let fallback_query = join '', '' fallback in
              (case urlopen net fallback_query sent1 of
                 (Fails e, sent2) \<Rightarrow> (Inl (Exception e), sent2)
               | (Results data2, sent2) \<Rightarrow>
                   if data2 \<noteq> [] then (first_coords data2, sent2)
                   else (Inr None, sent2))
            else (Inr None, sent1))"

text \<open>
  \<open>geocode_restaurant\<close>. The argument is \<open>None\<close> for Python's \<open>None\<close>; \<open>not location\<close>
  also holds of the empty dict. The result is \<open>Inl\<close> if an exception leaves the function,
  \<open>Inr None\<close> if it returns \<open>None\<close>, \<open>Inr (Some (lat, lng))\<close> if it returns coordinates.
\<close>

definition geocode_restaurant ::
  "geo_net \<Rightarrow> location option \<Rightarrow> string list \<Rightarrow>
     (exn + (real \<times> real) option) \<times> string list" where
  "geocode_restaurant net location sent =
     (case location of
        None \<Rightarrow> (Inr None, sent)
      | Some loc \<Rightarrow>
          if loc = [] then (Inr None, sent)
          else
            let parts = query_parts loc in
            if parts = [] then (Inr None, sent)
            else
              let query = join '', '' parts in
              (case geocode_try net loc parts query sent of
                 (Inl e, sent') \<Rightarrow> (Inr None, sent')
               | (Inr result, sent') \<Rightarrow> (Inr result, sent')))"

section \<open>analyzer.py\<close>

text \<open>
  One analysis record. \<open>r_location\<close> is \<open>None\<close> when the key is missing or \<open>null\<close>
  (\<open>restaurant.get('location', {})\<close> is falsy in both cases); \<open>r_food_images\<close> is \<open>None\<close>
  until \<open>extract_food_frames\<close> sets it; \<open>r_name\<close> stands for the descriptive fields
  the program only passes on.
\<close>

record restaurant =
  r_name :: string
  r_location :: "location option"
  r_food_shot_timestamps :: "string list"
  r_food_images :: "string list option"
  r_lat :: "real option"
  r_lng :: "real option"

text \<open>
  What \<open>json.loads(response.text)\<close> returns when it returns: a list of records, one
  record (a non-empty object), another truthy value, or a falsy value (\<open>null\<close>, \<open>{}\<close>,
  \<open>0\<close>, \<open>""\<close>, \<open>false\<close>).
\<close>

datatype parsed = PList "restaurant list" | PObject restaurant | POther | PFalsy

text \<open>The envelope uploaded as \<open>analysis_results/<id>_analysis.json\<close>.\<close>

record envelope =
  ev_tiktok_url :: string
  ev_video_file :: string
  ev_title :: "string option"
  ev_uploader :: "string option"
  ev_restaurants_found :: nat
  ev_restaurants :: "restaurant list"

text \<open>Calls of the external collaborators, in the order they are made.\<close>

datatype event =
    ExtractMetadata string
  | DownloadVideo string
  | AnalyzeVideo string string
  | SaveEnvelope string envelope
  | RebuildWebData

text \<open>
  A tracker entry and a response body are the dict literals of the source: keys in
  order, with JSON values.
\<close>

datatype jval = JNull | JStr string | JNum nat | JAnalysis "restaurant list"

type_synonym jdict = "(string \<times> jval) list"

text \<open>The tracker: a dict from the submitted URL to its entry, in insertion order.\<close>

type_synonym tracker = "(string \<times> jdict) list"

text \<open>
  The state the program acts on: the tracker file beside the program (\<open>None\<close>: no such
  file), the backup object \<open>state/url_tracker.json\<close> in the bucket (\<open>None\<close>: no such
  blob), the geocoding queries sent and the collaborator calls made so far.
\<close>

record world =
  primary :: "tracker option"
  backup :: "tracker option"
  geo_sent :: "string list"
  calls :: "event list"

text \<open>
  The collaborators of \<open>analyze_video\<close>. \<open>video_present\<close>: \<open>video_path.exists()\<close>.
  \<open>client\<close>: \<open>_get_client()\<close> raises or gives a client. \<open>files_upload\<close>: the upload
  raises or gives the file's first state. \<open>files_get i\<close>: the \<open>i\<close>-th poll raises or gives
  the state. \<open>generate_content\<close>: the call raises or gives \<open>response.text\<close>.
  \<open>json_loads\<close>: \<open>None\<close> for a \<open>JSONDecodeError\<close>. \<open>food_frames\<close>: the images ffmpeg
  and the uploads yield for the \<open>i\<close>-th record. \<open>envelope_upload\<close>: \<open>Some e\<close> when the
  upload of the envelope raises \<open>e\<close>.
\<close>

record gemini =
  video_present :: bool
  client :: "exn option"
  files_upload :: "exn + string"
  files_get :: "nat \<Rightarrow> exn + string"
  generate_content :: "exn + string"
  json_loads :: "string \<Rightarrow> parsed option"
  food_frames :: "string \<Rightarrow> nat \<Rightarrow> restaurant \<Rightarrow> string list"
  geo :: geo_net
  envelope_upload :: "exn option"

text \<open>\<open>Path(p).name\<close> and \<open>Path(p).stem\<close>, for a path that does not end in \<open>/\<close>.\<close>

definition path_name :: "string \<Rightarrow> string" where
  "path_name p = rev (takeWhile (\<lambda>c. c \<noteq> CHR ''/'') (rev p))"

definition stem :: "string \<Rightarrow> string" where
  "stem name =
     (let after = takeWhile (\<lambda>c. c \<noteq> CHR ''.'') (rev name);
          i = length name - length after - 1
      in if CHR ''.'' \<in> set name \<and> 0 < i \<and> i < length name - 1 then take i name else name)"

text \<open>
  \<open>extract_food_frames\<close>: every record gets its \<open>food_images\<close>; the per-timestamp work
  (ffmpeg, upload) is the collaborator \<open>frames\<close>, whose failures the source catches.
\<close>

definition extract_food_frames ::
  "(nat \<Rightarrow> restaurant \<Rightarrow> string list) \<Rightarrow> restaurant list \<Rightarrow> restaurant list" where
  "extract_food_frames frames restaurants =
     map (\<lambda>(i, restaurant). restaurant\<lparr>r_food_images := Some (frames i restaurant)\<rparr>)
       (enumerate 0 restaurants)"

text \<open>
  The geocoding loop inside its \<open>try\<close>: an exception out of \<open>geocode_restaurant\<close> ends
  the loop and leaves the remaining records as they are.
\<close>

fun geocode_all :: "geo_net \<Rightarrow> restaurant list \<Rightarrow> string list \<Rightarrow> restaurant list \<times> string list" where
  "geocode_all net [] sent = ([], sent)"
| "geocode_all net (restaurant # rest) sent =
     (case geocode_restaurant net (r_location restaurant) sent of
        (Inl e, sent') \<Rightarrow> (restaurant # rest, sent')
      | (Inr None, sent') \<Rightarrow>
          (let (rest', sent'') = geocode_all net rest sent'
           in (restaurant\<lparr>r_lat := None, r_lng := None\<rparr> # rest', sent''))
      | (Inr (Some (lat, lng)), sent') \<Rightarrow>
          (let (rest', sent'') = geocode_all net rest sent'
           in (restaurant\<lparr>r_lat := Some lat, r_lng := Some lng\<rparr> # rest', sent'')))"

text \<open>
  \<^verbatim>\<open>while uploaded_file.state == 'PROCESSING': sleep(3); uploaded_file = client.files.get(...)\<close>
  The loop has no bound: \<open>None\<close> is the run that never leaves it.
\<close>

partial_function (option) wait_while_processing ::
  "(nat \<Rightarrow> exn + string) \<Rightarrow> nat \<Rightarrow> string \<Rightarrow> (exn + string) option" where
  "wait_while_processing get i state =
     (if state = ''PROCESSING'' then
        (case get i of
           Inl e \<Rightarrow> Some (Inl e)
         | Inr state' \<Rightarrow> wait_while_processing get (Suc i) state')
      else Some (Inr state))"

text \<open>\<open>analyze_video\<close> from the parsing of the response to its return.\<close>

definition analyze_response ::
  "gemini \<Rightarrow> string \<Rightarrow> string \<Rightarrow> string \<Rightarrow> metadata option \<Rightarrow> string \<Rightarrow> world \<Rightarrow>
     (exn + restaurant list) \<times> world" where
  "analyze_response g video_name video_id url metadata text w =
     (let result = (case json_loads g text of None \<Rightarrow> PList [] | Some r \<Rightarrow> r)
      in case result of
           POther \<Rightarrow> (Inl (Exception ''AttributeError''), w)
         | _ \<Rightarrow>
           (let result = (case result of PList rs \<Rightarrow> rs | PObject r \<Rightarrow> [r] | _ \<Rightarrow> []);
                result = (if result \<noteq> [] then extract_food_frames (food_frames g video_id) result
                          else result);
                (result, sent) = (if result \<noteq> [] then geocode_all (geo g) result (geo_sent w)
                                  else (result, geo_sent w));
                w1 = w\<lparr>geo_sent := sent\<rparr>;
                output = \<lparr>ev_tiktok_url = url, ev_video_file = video_name,
                          ev_title = (case metadata of None \<Rightarrow> Some [] | Some m \<Rightarrow> md_title m),
                          ev_uploader = (case metadata of None \<Rightarrow> Some [] | Some m \<Rightarrow> md_uploader m),
                          ev_restaurants_found = length result, ev_restaurants = result\<rparr>
            in if length result > 0 then
                 (let gcs_path = ''analysis_results/'' @ video_id @ ''_analysis.json''
                  in case envelope_upload g of
                       Some e \<Rightarrow> (Inl e, w1)
                     | None \<Rightarrow> (Inr result, w1\<lparr>calls := calls w1 @ [SaveEnvelope gcs_path output]\<rparr>))
               else (Inr result, w1)))"

text \<open>
  \<open>analyze_video\<close>: \<open>None\<close> when the polling loop never ends, \<open>Some (Inl e, _)\<close> when it
  raises \<open>e\<close>, \<open>Some (Inr rs, _)\<close> when it returns the list \<open>rs\<close>.
\<close>

definition analyze_video ::
  "gemini \<Rightarrow> string \<Rightarrow> string \<Rightarrow> metadata option \<Rightarrow> world \<Rightarrow>
     ((exn + restaurant list) \<times> world) option" where
  "analyze_video g video_path url metadata w =
     (if \<not> video_present g then
        Some (Inl (Exception (''Video not found: '' @ video_path)), w)
      else
        let video_id = stem (path_name video_path) in
        case client g of
          Some e \<Rightarrow> Some (Inl e, w)
        | None \<Rightarrow>
          (case files_upload g of
             Inl e \<Rightarrow> Some (Inl e, w)
           | Inr state0 \<Rightarrow>
             (case wait_while_processing (files_get g) 0 state0 of
                None \<Rightarrow> None
              | Some (Inl e) \<Rightarrow> Some (Inl e, w)
              | Some (Inr state) \<Rightarrow>
                  if state \<noteq> ''ACTIVE'' then
                    Some (Inl (Exception (''File upload failed with state: '' @ state)), w)
                  else
                    (case generate_content g of
                       Inl e \<Rightarrow> Some (Inl e, w)
                     | Inr text \<Rightarrow>
                         Some (analyze_response g (path_name video_path) video_id url
                                 metadata text w)))))"

section \<open>downloader.py: the tracker's stores and the \<open>/process\<close> handler\<close>

definition is_duplicate :: "string \<Rightarrow> tracker \<Rightarrow> bool" where
  "is_duplicate url tracker =
     (let normalized = normalize_url url in is_duplicate_keys normalized (map fst tracker))"

text \<open>
  \<open>download_json\<close> and \<open>upload_json\<close> of gcs\_utils.py on the tracker's backup object.
  The first argument is the bucket's condition at the call: \<open>Some e\<close> when the client
  raises \<open>e\<close> (unreachable bucket, missing credentials).
\<close>

definition download_json :: "exn option \<Rightarrow> world \<Rightarrow> exn + tracker option" where
  "download_json gcs w = (case gcs of Some e \<Rightarrow> Inl e | None \<Rightarrow> Inr (backup w))"

definition upload_json :: "exn option \<Rightarrow> tracker \<Rightarrow> world \<Rightarrow> exn + world" where
  "upload_json gcs data w = (case gcs of Some e \<Rightarrow> Inl e | None \<Rightarrow> Inr (w\<lparr>backup := Some data\<rparr>))"

text \<open>
  \<open>load_tracker\<close> and \<open>save_tracker\<close>. The tracker file is read and written without
  failure; \<open>Inl\<close> would be an exception leaving the function.
\<close>

definition load_tracker :: "exn option \<Rightarrow> world \<Rightarrow> (exn + tracker) \<times> world" where
  "load_tracker gcs w =
     (case primary w of
        Some tracker \<Rightarrow> (Inr tracker, w)
      | None \<Rightarrow>
          (case download_json gcs w of
             Inl e \<Rightarrow> (Inr [], w)
           | Inr None \<Rightarrow> (Inr [], w)
           | Inr (Some data) \<Rightarrow>
               if data \<noteq> [] then (Inr data, w\<lparr>primary := Some data\<rparr>)
               else (Inr [], w)))"

definition save_tracker :: "exn option \<Rightarrow> tracker \<Rightarrow> world \<Rightarrow> (exn + unit) \<times> world" where
  "save_tracker gcs tracker w =
     (let w1 = w\<lparr>primary := Some tracker\<rparr>
      in case upload_json gcs tracker w1 of
           Inl e \<Rightarrow> (Inr (), w1)
         | Inr w2 \<Rightarrow> (Inr (), w2))"

text \<open>The result dict of \<open>download_video\<close> and the sidecar \<open>.info.json\<close>.\<close>

record dl_result =
  dl_filename :: string
  dl_id :: string
  dl_title :: "string option"
  dl_uploader :: "string option"

record info_json =
  ij_title :: "string option"
  ij_fulltitle :: "string option"
  ij_description :: "string option"
  ij_uploader :: "string option"
  ij_tags :: "string list option"

text \<open>
  The collaborators of the handler. \<open>gcs_restore\<close> and \<open>gcs_backup\<close>: the bucket's
  condition when \<open>load_tracker\<close> reads and when \<open>save_tracker\<close> writes. \<open>yt_info\<close> and
  \<open>yt_download\<close>: what yt-dlp does for \<open>extract_metadata\<close> and \<open>download_video\<close>: it
  raises or gives the dict. \<open>sidecar\<close>: the content of the \<open>.info.json\<close> file, \<open>None\<close>
  when there is none. \<open>now\<close>: \<open>datetime.now(timezone.utc).isoformat()\<close>.
\<close>

record env =
  gcs_restore :: "exn option"
  gcs_backup :: "exn option"
  yt_info :: "string \<Rightarrow> exn + metadata"
  yt_download :: "string \<Rightarrow> exn + dl_result"
  sidecar :: "info_json option"
  gemini_api :: gemini
  now :: string

definition extract_metadata :: "env \<Rightarrow> string \<Rightarrow> world \<Rightarrow> (exn + metadata) \<times> world" where
  "extract_metadata env url w = (yt_info env url, w\<lparr>calls := calls w @ [ExtractMetadata url]\<rparr>)"

definition download_video :: "env \<Rightarrow> string \<Rightarrow> world \<Rightarrow> (exn + dl_result) \<times> world" where
  "download_video env url w = (yt_download env url, w\<lparr>calls := calls w @ [DownloadVideo url]\<rparr>)"

definition load_rich_metadata :: "info_json option \<Rightarrow> metadata \<Rightarrow> metadata" where
  "load_rich_metadata info_file fallback_meta =
     (case info_file of
        Some info \<Rightarrow>
          \<lparr>md_title = (if or_empty (ij_title info) \<noteq> [] then ij_title info else ij_fulltitle info),
           md_description = ij_description info,
           md_uploader = ij_uploader info,
           md_tags = Some (or_empty (ij_tags info))\<rparr>
      | None \<Rightarrow> fallback_meta)"

text \<open>\<open>str(n)\<close> for a count.\<close>

function str_nat :: "nat \<Rightarrow> string" where
  "str_nat n =
     (if n < 10 then [char_of (48 + n)]
      else str_nat (n div 10) @ [char_of (48 + n mod 10)])"
  by pat_completeness auto
termination
  by (relation "measure id") auto

definition opt_str :: "string option \<Rightarrow> jval" where
  "opt_str v = (case v of None \<Rightarrow> JNull | Some s \<Rightarrow> JStr s)"

text \<open>
  Step 8 of the handler:
  \<^verbatim>\<open>if analysis_error: ... elif len(analysis) > 0: ... else: ...\<close>
  \<open>analysis_error\<close> is \<open>None\<close> or the text \<open>str(e)\<close> of the exception caught; the test is
  Python's truth test, which the empty text fails as \<open>None\<close> does.
\<close>

definition category_of :: "string option \<Rightarrow> restaurant list \<Rightarrow> string" where
  "category_of analysis_error analysis =
     (if (case analysis_error of None \<Rightarrow> False | Some msg \<Rightarrow> msg \<noteq> []) then ''analysis_failed''
      else if length analysis > 0 then ''restaurant''
      else ''not_restaurant'')"

text \<open>The JSON body of the request: \<open>rq_url\<close> is \<open>None\<close> when it has no \<open>url\<close> field; the
  other two fields with their default \<open>''\<close> applied.\<close>

record request =
  rq_url :: "string option"
  rq_chat_name :: string
  rq_sender :: string

text \<open>What a run of the handler ends in: a response it returns (status code and body), or
  an exception that leaves it.\<close>

datatype outcome = Returned nat jdict | Unhandled exn

text \<open>
  \<open>handle_process\<close>, step by step as in the source, in four parts: the check of the
  request and step 1 in \<open>handle_process\<close> itself, steps 2 and 3 in \<open>extract_and_filter\<close>,
  steps 4 to 6 in \<open>download_and_analyze\<close>, steps 8 to 10 and the response in
  \<open>persist_and_respond\<close>. \<open>None\<close>: the run never returns (the polling loop of the
  analysis). Step 7, the deletion of the downloaded files, acts on nothing in
  \<open>world\<close> and catches its own failures; it is left out.
\<close>

text \<open>
  The log line after the filter, \<^verbatim>\<open>print(f'... (title: {meta["title"][:60]})')\<close>,
  slices the title. \<open>extract_metadata\<close> takes the title with \<open>info.get('title', '')\<close>,
  which is \<open>None\<close> when yt-dlp gives the key with the value \<open>None\<close>; slicing \<open>None\<close>
  raises a \<open>TypeError\<close> with this text, which no \<open>try\<close> of the handler encloses.
\<close>

definition title_not_subscriptable :: exn where
  "title_not_subscriptable =
     Exception ([CHR 0x27] @ ''NoneType'' @ [CHR 0x27] @ '' object is not subscriptable'')"

text \<open>
  Step 6, the \<open>try\<close> around \<open>analyze_video\<close>: the list returned and no error text, or,
  for an exception caught, the list as initialised and the text \<open>str(e)\<close>.
\<close>

definition caught :: "exn + restaurant list \<Rightarrow> restaurant list \<times> string option" where
  "caught raised_or_list =
     (case raised_or_list of
        Inl (Exception e) \<Rightarrow> ([], Some e)
      | Inr restaurants \<Rightarrow> (restaurants, None))"

text \<open>The entry of step 9 and the body of the final response.\<close>

definition analysed_entry ::
  "env \<Rightarrow> string \<Rightarrow> string \<Rightarrow> string \<Rightarrow> dl_result \<Rightarrow> restaurant list \<Rightarrow> string option \<Rightarrow>
     string \<Rightarrow> jdict" where
  "analysed_entry env chat_name sender filter_result dl analysis analysis_error category =
     [(''filename'', JStr (dl_filename dl)),
      (''title'', opt_str (dl_title dl)),
      (''uploader'', opt_str (dl_uploader dl)),
      (''sender'', JStr sender),
      (''chat'', JStr chat_name),
      (''downloaded_at'', JStr (now env)),
      (''category'', JStr category),
      (''filter_result'', JStr filter_result),
      (''restaurants_found'', JNum (length analysis)),
      (''analysis_file'',
         if analysis \<noteq> [] then JStr (dl_id dl @ ''_analysis.json'') else JNull),
      (''analysis_error'', opt_str analysis_error)]"

definition success_response ::
  "string \<Rightarrow> dl_result \<Rightarrow> restaurant list \<Rightarrow> string \<Rightarrow> jdict" where
  "success_response filter_result dl analysis category =
     (let restaurant_count = length analysis
      in [(''status'', JStr ''success''),
          (''category'', JStr category),
          (''message'', JStr (category @ '': '' @ str_nat restaurant_count
                               @ '' restaurant(s) found'')),
          (''filename'', JStr (dl_filename dl)),
          (''title'', opt_str (dl_title dl)),
          (''filter_result'', JStr filter_result),
          (''restaurants_found'', JNum restaurant_count),
          (''analysis'', JAnalysis analysis)])"

text \<open>
  Steps 8 to 10. \<open>raised_or_list\<close> is what the \<open>try\<close> around \<open>analyze_video\<close> saw: an
  exception, which it catches, or the list returned.
\<close>

definition persist_and_respond ::
  "env \<Rightarrow> string \<Rightarrow> string \<Rightarrow> string \<Rightarrow> tracker \<Rightarrow> string \<Rightarrow> dl_result \<Rightarrow>
     exn + restaurant list \<Rightarrow> world \<Rightarrow> outcome \<times> world" where
  "persist_and_respond env url chat_name sender tracker filter_result dl raised_or_list w4 =
     (let (analysis, analysis_error) = caught raised_or_list;
          category = category_of analysis_error analysis;
          tracker' = AList.update url
            (analysed_entry env chat_name sender filter_result dl analysis analysis_error category)
            tracker
      in case save_tracker (gcs_backup env) tracker' w4 of
           (Inl e, w5) \<Rightarrow> (Unhandled e, w5)
         | (Inr u, w5) \<Rightarrow>
           (let w6 = (if category = ''restaurant''
                      then w5\<lparr>calls := calls w5 @ [RebuildWebData]\<rparr> else w5)
            in (Returned 200 (success_response filter_result dl analysis category), w6)))"

text \<open>Steps 4 to 6.\<close>

definition download_and_analyze ::
  "env \<Rightarrow> string \<Rightarrow> string \<Rightarrow> string \<Rightarrow> tracker \<Rightarrow> metadata \<Rightarrow> string \<Rightarrow> world \<Rightarrow>
     (outcome \<times> world) option" where
  "download_and_analyze env url chat_name sender tracker meta filter_result w2 =
     (case download_video env url w2 of
        (Inl (Exception e), w3) \<Rightarrow>
          Some (Returned 500 [(''status'', JStr ''error''),
                              (''message'', JStr (''Download failed: '' @ e))], w3)
      | (Inr dl, w3) \<Rightarrow>
        (let video_path = ''/tmp/tiktok_videos/'' @ dl_filename dl;
             rich_meta = load_rich_metadata (sidecar env) meta
         in case analyze_video (gemini_api env) video_path url (Some rich_meta)
                   (w3\<lparr>calls := calls w3 @ [AnalyzeVideo video_path url]\<rparr>) of
              None \<Rightarrow> None
            | Some (raised_or_list, w4) \<Rightarrow>
                Some (persist_and_respond env url chat_name sender tracker filter_result dl
                        raised_or_list w4)))"

text \<open>The entry written for a URL the filter rejects, and the response then returned.\<close>

definition skipped_entry :: "env \<Rightarrow> string \<Rightarrow> string \<Rightarrow> metadata \<Rightarrow> string \<Rightarrow> string \<Rightarrow> jdict" where
  "skipped_entry env chat_name sender meta title filter_result =
     [(''filename'', JNull),
      (''title'', JStr title),
      (''uploader'', opt_str (md_uploader meta)),
      (''sender'', JStr sender),
      (''chat'', JStr chat_name),
      (''downloaded_at'', JStr (now env)),
      (''category'', JStr ''skipped_not_restaurant''),
      (''filter_result'', JStr filter_result)]"

definition skipped_response :: "string \<Rightarrow> string \<Rightarrow> jdict" where
  "skipped_response title filter_result =
     [(''status'', JStr ''skipped''),
      (''message'', JStr (''Not restaurant-related (filter: '' @ filter_result @ '')'')),
      (''title'', JStr title),
      (''filter_result'', JStr filter_result)]"

text \<open>Steps 2 and 3, and the rest through \<open>download_and_analyze\<close>.\<close>

definition extract_and_filter ::
  "env \<Rightarrow> string \<Rightarrow> string \<Rightarrow> string \<Rightarrow> tracker \<Rightarrow> world \<Rightarrow> (outcome \<times> world) option" where
  "extract_and_filter env url chat_name sender tracker w1 =
     (case extract_metadata env url w1 of
        (Inl (Exception e), w2) \<Rightarrow>
          Some (Returned 500 [(''status'', JStr ''error''),
                              (''message'', JStr (''Metadata failed: '' @ e))], w2)
      | (Inr meta, w2) \<Rightarrow>
        (let filter_result = is_likely_restaurant meta
         in case md_title meta of
              None \<Rightarrow> Some (Unhandled title_not_subscriptable, w2)
            | Some title \<Rightarrow>
                if filter_result = ''unlikely'' then
                  (let tracker' = AList.update url
                         (skipped_entry env chat_name sender meta title filter_result) tracker
                   in case save_tracker (gcs_backup env) tracker' w2 of
                        (Inl e, w3) \<Rightarrow> Some (Unhandled e, w3)
                      | (Inr u, w3) \<Rightarrow>
                          Some (Returned 200 (skipped_response title filter_result), w3))
                else download_and_analyze env url chat_name sender tracker meta filter_result w2))"

text \<open>The handler: the request check and step 1, the duplicate check.\<close>

definition handle_process :: "env \<Rightarrow> request \<Rightarrow> world \<Rightarrow> (outcome \<times> world) option" where
  "handle_process env data w0 =
     (case rq_url data of
        None \<Rightarrow>
          Some (Returned 400 [(''status'', JStr ''error''), (''message'', JStr ''Missing url field'')], w0)
      | Some url \<Rightarrow>
        (let chat_name = rq_chat_name data; sender = rq_sender data
         in case load_tracker (gcs_restore env) w0 of
              (Inl e, w1) \<Rightarrow> Some (Unhandled e, w1)
            | (Inr tracker, w1) \<Rightarrow>
                if is_duplicate url tracker then
                  Some (Returned 200 [(''status'', JStr ''skipped''),
                                      (''message'', JStr ''Already processed'')], w1)
                else extract_and_filter env url chat_name sender tracker w1))"

text \<open>
  The invariant of the tracker: no two of its keys have the same normal form. It is
  stated of both stores, the file and the backup object.
\<close>

definition at_most_once :: "tracker \<Rightarrow> bool" where
  "at_most_once tracker = distinct (map (\<lambda>entry. normalize_url (fst entry)) tracker)"

definition stores_at_most_once :: "world \<Rightarrow> bool" where
  "stores_at_most_once w =
     ((case primary w of None \<Rightarrow> True | Some tracker \<Rightarrow> at_most_once tracker)
      \<and> (case backup w of None \<Rightarrow> True | Some tracker \<Rightarrow> at_most_once tracker))"

section \<open>Example runs\<close>

text \<open>
  A submission whose metadata passes the filter and whose download succeeds, with an
  analysis that is ready at once and answers with text that is not JSON. The argument of
  \<open>example_gemini\<close> is what the upload of the video does.
\<close>

definition example_url :: string where
  "example_url = ''https://tiktok.com/@chef/video/123?x=1''"

definition example_meta :: metadata where
  "example_meta =
     \<lparr>md_title = Some ''best ramen spot in Austin'', md_description = None,
      md_uploader = Some ''chef'', md_tags = None\<rparr>"

definition example_dl :: dl_result where
  "example_dl =
     \<lparr>dl_filename = ''123.mp4'', dl_id = ''123'',
      dl_title = Some ''best ramen spot in Austin'', dl_uploader = Some ''chef''\<rparr>"

definition example_gemini :: "exn + string \<Rightarrow> gemini" where
  "example_gemini up =
     \<lparr>video_present = True, client = None, files_upload = up,
      files_get = (\<lambda>i. if i < 2 then Inr ''PROCESSING'' else Inr ''ACTIVE''),
      generate_content = Inr ''Sorry, no restaurants here.'',
      json_loads = (\<lambda>t. None),
      food_frames = (\<lambda>video_id i restaurant. []),
      geo = (\<lambda>i q. Results []),
      envelope_upload = None\<rparr>"

definition example_env :: "exn + string \<Rightarrow> env" where
  "example_env up =
     \<lparr>gcs_restore = None, gcs_backup = None,
      yt_info = (\<lambda>url. Inr example_meta),
      yt_download = (\<lambda>url. Inr example_dl),
      sidecar = None,
      gemini_api = example_gemini up,
      now = ''2026-01-01T00:00:00+00:00''\<rparr>"

definition example_request :: request where
  "example_request = \<lparr>rq_url = Some example_url, rq_chat_name = ''food'', rq_sender = ''sam''\<rparr>"

definition empty_world :: world where
  "empty_world = \<lparr>primary = None, backup = None, geo_sent = [], calls = []\<rparr>"

text \<open>
  The example submission when yt-dlp gives no title for the video: the key \<open>title\<close> is
  there with the value \<open>None\<close>, and the words are in the description.
\<close>

definition untitled_meta :: metadata where
  "untitled_meta =
     \<lparr>md_title = None, md_description = Some ''best ramen spot in Austin'',
      md_uploader = Some ''chef'', md_tags = None\<rparr>"

definition untitled_env :: env where
  "untitled_env = (example_env (Inr ''PROCESSING''))\<lparr>yt_info := \<lambda>url. Inr untitled_meta\<rparr>"

section \<open>Facts about strings\<close>

lemma split_chr_not_Nil: "split_chr c s \<noteq> []"
  by (induction s) (auto split: list.splits)

lemma split0_takeWhile: "split0 c s = takeWhile (\<lambda>x. x \<noteq> c) s"
  unfolding split0_def
  by (induction s) (auto split: list.splits simp: split_chr_not_Nil)

lemma split0_append_sep: "split0 c (u @ c # q) = split0 c u"
  by (induction u) (simp_all add: split0_takeWhile)

lemma split0_append_other:
  "c \<notin> set u \<Longrightarrow> split0 c (u @ v) = u @ split0 c v"
  by (induction u) (auto simp: split0_takeWhile)

lemma split0_idem: "c \<notin> set u \<Longrightarrow> split0 c u = u"
  by (induction u) (auto simp: split0_takeWhile)

lemma rstrip_chr_replicate: "rstrip_chr c (u @ replicate n c) = rstrip_chr c u"
proof -
  have "dropWhile (\<lambda>x. x = c) (replicate n c @ rev u) = dropWhile (\<lambda>x. x = c) (rev u)"
    by (induction n) simp_all
  then show ?thesis
    by (simp add: rstrip_chr_def)
qed


lemma takeWhile_ne_append_sep: "takeWhile (\<lambda>x. x \<noteq> c) (u @ c # q) = takeWhile (\<lambda>x. x \<noteq> c) u"
  by (induction u) simp_all

lemma takeWhile_ne_append_hit:
  "c \<in> set u \<Longrightarrow> takeWhile (\<lambda>x. x \<noteq> c) (u @ v) = takeWhile (\<lambda>x. x \<noteq> c) u"
  by (induction u) auto

lemma takeWhile_ne_append_miss:
  "c \<notin> set u \<Longrightarrow> takeWhile (\<lambda>x. x \<noteq> c) (u @ v) = u @ takeWhile (\<lambda>x. x \<noteq> c) v"
  by (induction u) auto

lemma takeWhile_ne_miss: "c \<notin> set u \<Longrightarrow> takeWhile (\<lambda>x. x \<noteq> c) u = u"
  by (induction u) auto

lemma normalize_url_takeWhile:
  "normalize_url url =
     rstrip_chr CHR ''/'' (takeWhile (\<lambda>c. c \<noteq> CHR ''#'') (takeWhile (\<lambda>c. c \<noteq> CHR ''?'') url))"
  by (simp add: normalize_url_def split0_takeWhile)

lemma normalize_url_query: "normalize_url (u @ CHR ''?'' # q) = normalize_url u"
  by (simp add: normalize_url_takeWhile takeWhile_ne_append_sep)

lemma normalize_url_fragment: "normalize_url (u @ CHR ''#'' # f) = normalize_url u"
proof (cases "CHR ''?'' \<in> set u")
  case True
  then show ?thesis
    by (simp add: normalize_url_takeWhile takeWhile_ne_append_hit)
next
  case False
  then show ?thesis
    by (simp add: normalize_url_takeWhile takeWhile_ne_append_miss takeWhile_ne_append_sep
        takeWhile_ne_miss)
qed

lemma normalize_url_slashes: "normalize_url (u @ replicate n CHR ''/'') = normalize_url u"
proof (cases "CHR ''?'' \<in> set u")
  case True
  then show ?thesis
    by (simp add: normalize_url_takeWhile takeWhile_ne_append_hit)
next
  case q: False
  show ?thesis
  proof (cases "CHR ''#'' \<in> set u")
    case True
    with q show ?thesis
      by (simp add: normalize_url_takeWhile takeWhile_ne_append_miss takeWhile_ne_append_hit
          takeWhile_ne_miss)
  next
    case False
    have "takeWhile (\<lambda>c. c \<noteq> CHR ''?'') (replicate n CHR ''/'') = replicate n CHR ''/''"
      by (induction n) simp_all
    moreover have "takeWhile (\<lambda>c. c \<noteq> CHR ''#'') (replicate n CHR ''/'') = replicate n CHR ''/''"
      by (induction n) simp_all
    ultimately show ?thesis
      using q False
      by (simp add: normalize_url_takeWhile takeWhile_ne_append_miss rstrip_chr_replicate
          takeWhile_ne_miss)
  qed
qed

text \<open>
  The normal form is what precedes the first \<open>?\<close> or \<open>#\<close> of the URL without its
  trailing slashes; normalising twice is normalising once.
\<close>

lemma takeWhile_both:
  "takeWhile (\<lambda>x. x \<noteq> d) (takeWhile (\<lambda>x. x \<noteq> c) s) = takeWhile (\<lambda>x. x \<noteq> c \<and> x \<noteq> d) s"
  by (induction s) simp_all

lemma takeWhile_eq_replicate: "takeWhile (\<lambda>x. x = c) xs = replicate (length (takeWhile (\<lambda>x. x = c) xs)) c"
  by (induction xs) simp_all

lemma rstrip_chr_decompose: "\<exists>n. s = rstrip_chr c s @ replicate n c"
proof -
  have "rev s = takeWhile (\<lambda>x. x = c) (rev s) @ dropWhile (\<lambda>x. x = c) (rev s)"
    by simp
  then have "s = rev (dropWhile (\<lambda>x. x = c) (rev s)) @ rev (takeWhile (\<lambda>x. x = c) (rev s))"
    by (metis rev_append rev_rev_ident)
  moreover have "rev (takeWhile (\<lambda>x. x = c) (rev s))
      = replicate (length (takeWhile (\<lambda>x. x = c) (rev s))) c"
    using takeWhile_eq_replicate [of c "rev s"] by (metis rev_replicate)
  ultimately show ?thesis
    unfolding rstrip_chr_def by metis
qed

lemma rstrip_chr_no_suffix: "\<not> suffix [c] (rstrip_chr c s)"
proof
  assume "suffix [c] (rstrip_chr c s)"
  then obtain p where "rstrip_chr c s = p @ [c]"
    by (auto simp: suffix_def)
  then have "dropWhile (\<lambda>x. x = c) (rev s) = c # rev p"
    by (metis rstrip_chr_def rev_rev_ident rev_append rev.simps append_Nil rev_singleton_conv append_Cons)
  then show False
    using hd_dropWhile [of "\<lambda>x. x = c" "rev s"] by simp
qed

lemma rstrip_chr_idem: "rstrip_chr c (rstrip_chr c s) = rstrip_chr c s"
proof -
  have "dropWhile (\<lambda>x. x = c) (dropWhile (\<lambda>x. x = c) xs) = dropWhile (\<lambda>x. x = c) xs" for xs
    by (induction xs) simp_all
  then show ?thesis
    by (simp add: rstrip_chr_def)
qed

lemma set_rstrip_chr: "set (rstrip_chr c s) \<subseteq> set s"
  unfolding rstrip_chr_def using set_dropWhileD by fastforce

lemma normalize_url_prefix:
  "\<exists>n. takeWhile (\<lambda>c. c \<noteq> CHR ''?'' \<and> c \<noteq> CHR ''#'') url = normalize_url url @ replicate n CHR ''/''"
  using rstrip_chr_decompose [of "takeWhile (\<lambda>c. c \<noteq> CHR ''?'' \<and> c \<noteq> CHR ''#'') url" "CHR ''/''"]
  by (simp add: normalize_url_takeWhile takeWhile_both)

lemma normalize_url_stripped: "\<not> suffix ''/'' (normalize_url url)"
  by (simp add: normalize_url_def rstrip_chr_no_suffix)

lemma normalize_url_idem: "normalize_url (normalize_url u) = normalize_url u"
proof -
  let ?p = "takeWhile (\<lambda>c. c \<noteq> CHR ''?'' \<and> c \<noteq> CHR ''#'') u"
  have n: "normalize_url u = rstrip_chr CHR ''/'' ?p"
    by (simp add: normalize_url_takeWhile takeWhile_both)
  have "set ?p \<subseteq> {c. c \<noteq> CHR ''?'' \<and> c \<noteq> CHR ''#''}"
    using set_takeWhileD by fastforce
  with set_rstrip_chr [of "CHR ''/''" ?p]
  have "\<forall>c \<in> set (normalize_url u). c \<noteq> CHR ''?'' \<and> c \<noteq> CHR ''#''"
    unfolding n by blast
  then have tw: "takeWhile (\<lambda>c. c \<noteq> CHR ''?'' \<and> c \<noteq> CHR ''#'') (normalize_url u) = normalize_url u"
    by (simp add: takeWhile_eq_all_conv)
  have "normalize_url (normalize_url u)
      = rstrip_chr CHR ''/'' (takeWhile (\<lambda>c. c \<noteq> CHR ''?'' \<and> c \<noteq> CHR ''#'') (normalize_url u))"
    by (simp only: normalize_url_takeWhile [of "normalize_url u"] takeWhile_both)
  also have "\<dots> = rstrip_chr CHR ''/'' (normalize_url u)"
    by (simp only: tw)
  also have "\<dots> = normalize_url u"
    by (simp only: n rstrip_chr_idem)
  finally show ?thesis .
qed

lemma normalize_url_tail:
  "normalize_url (u @ replicate k CHR ''/''
       @ (case q of None \<Rightarrow> [] | Some x \<Rightarrow> CHR ''?'' # x)
       @ (case f of None \<Rightarrow> [] | Some y \<Rightarrow> CHR ''#'' # y)) = normalize_url u"
proof (cases q)
  case None
  show ?thesis
  proof (cases f)
    case None
    with \<open>q = None\<close> show ?thesis by (simp add: normalize_url_slashes)
  next
    case (Some y)
    have "normalize_url ((u @ replicate k CHR ''/'') @ CHR ''#'' # y) = normalize_url (u @ replicate k CHR ''/'')"
      by (rule normalize_url_fragment)
    with Some \<open>q = None\<close> show ?thesis by (simp add: normalize_url_slashes)
  qed
next
  case (Some x)
  have "normalize_url ((u @ replicate k CHR ''/'') @ CHR ''?'' # (x @ (case f of None \<Rightarrow> [] | Some y \<Rightarrow> CHR ''#'' # y)))
      = normalize_url (u @ replicate k CHR ''/'')"
    by (rule normalize_url_query)
  with Some show ?thesis by (simp add: normalize_url_slashes)
qed

section \<open>Facts about the score\<close>

lemma keyword_loop_matched:
  "keyword_loop w text kws score = score + w * int (matched kws text)"
  by (induction kws arbitrary: score) (simp_all add: matched_def algebra_simps)

lemma score_text_matched:
  "score_text text =
     3 * int (matched HIGH_KEYWORDS text) + int (matched MEDIUM_KEYWORDS text)
       - 2 * int (matched ANTI_KEYWORDS text)"
  by (simp add: score_text_def keyword_loop_matched)

lemma lower_HIGH_KEYWORDS: "map lower HIGH_KEYWORDS = HIGH_KEYWORDS"
  by code_simp

lemma lower_MEDIUM_KEYWORDS: "map lower MEDIUM_KEYWORDS = MEDIUM_KEYWORDS"
  by code_simp

lemma lower_ANTI_KEYWORDS: "map lower ANTI_KEYWORDS = ANTI_KEYWORDS"
  by code_simp

lemma matched_map_lower:
  "matched kws text = length (filter (\<lambda>kw. contains kw text) (map lower kws))"
  by (simp add: matched_def filter_map o_def)

lemma occurrences_spec_map_lower:
  "occurrences_spec md kws =
     int (length (concat (map (\<lambda>kw. filter (contains kw) (field_texts md)) (map lower kws))))"
  by (simp add: occurrences_spec_def o_def)

lemmas matched_keywords =
  matched_map_lower [of HIGH_KEYWORDS, unfolded lower_HIGH_KEYWORDS]
  matched_map_lower [of MEDIUM_KEYWORDS, unfolded lower_MEDIUM_KEYWORDS]
  matched_map_lower [of ANTI_KEYWORDS, unfolded lower_ANTI_KEYWORDS]

lemmas occurrences_keywords =
  occurrences_spec_map_lower [of _ HIGH_KEYWORDS, unfolded lower_HIGH_KEYWORDS]
  occurrences_spec_map_lower [of _ MEDIUM_KEYWORDS, unfolded lower_MEDIUM_KEYWORDS]
  occurrences_spec_map_lower [of _ ANTI_KEYWORDS, unfolded lower_ANTI_KEYWORDS]

section \<open>Facts about the geocoder\<close>

lemma length_join:
  "length (join sep xs) = sum_list (map length xs) + length sep * (length xs - 1)"
  by (induction sep xs rule: join.induct) simp_all

lemma part_cases: "part loc k = [] \<or> (\<exists>s. s \<noteq> [] \<and> part loc k = [s])"
  by (simp add: part_def split: option.splits)

lemma parts_differ_iff:
  "fallback_parts loc \<noteq> query_parts loc \<longleftrightarrow>
     join '', '' (fallback_parts loc) \<noteq> join '', '' (query_parts loc)"
proof
  assume "join '', '' (fallback_parts loc) \<noteq> join '', '' (query_parts loc)"
  then show "fallback_parts loc \<noteq> query_parts loc" by auto
next
  assume d: "fallback_parts loc \<noteq> query_parts loc"
  have "length (join '', '' (fallback_parts loc)) < length (join '', '' (query_parts loc))"
    using d part_cases [of loc "''specific_address''"] part_cases [of loc "''neighborhood''"]
      part_cases [of loc "''city''"] part_cases [of loc "''state_or_region''"]
      part_cases [of loc "''country''"]
    unfolding fallback_parts_def query_parts_def
    by (auto simp: length_join)
  then show "join '', '' (fallback_parts loc) \<noteq> join '', '' (query_parts loc)"
    by auto
qed

lemma geocode_try_sent:
  "snd (geocode_try net loc parts query sent) =
     sent @ [query] @
       (if net (length sent) query = Results [] \<and> fallback_parts loc \<noteq> []
           \<and> fallback_parts loc \<noteq> parts
        then [join '', '' (fallback_parts loc)] else [])"
  by (simp add: geocode_try_def urlopen_def Let_def split: geo_reply.splits)

lemma geocode_restaurant_unfold:
  "geocode_restaurant net (Some loc) sent =
     (if query_parts loc = [] then (Inr None, sent)
      else (case geocode_try net loc (query_parts loc) (join '', '' (query_parts loc)) sent of
              (Inl e, sent') \<Rightarrow> (Inr None, sent')
            | (Inr result, sent') \<Rightarrow> (Inr result, sent')))"
proof (cases "loc = []")
  case True
  then show ?thesis
    by (simp add: geocode_restaurant_def query_parts_def part_def)
next
  case False
  then show ?thesis
    by (simp add: geocode_restaurant_def Let_def)
qed

lemma geocode_restaurant_sent:
  "snd (geocode_restaurant net (Some loc) sent) =
     (if query_parts loc = [] then sent
      else snd (geocode_try net loc (query_parts loc) (join '', '' (query_parts loc)) sent))"
  by (simp add: geocode_restaurant_unfold split: prod.splits sum.splits)

lemma geocode_restaurant_None: "geocode_restaurant net None sent = (Inr None, sent)"
  by (simp add: geocode_restaurant_def)

lemma geocode_restaurant_length:
  "length (snd (geocode_restaurant net location sent)) \<le> length sent + 2"
proof (cases location)
  case None
  then show ?thesis by (simp add: geocode_restaurant_None)
next
  case (Some loc)
  then show ?thesis by (simp add: geocode_restaurant_sent geocode_try_sent)
qed

lemma geocode_restaurant_Inr: "\<exists>r. fst (geocode_restaurant net location sent) = Inr r"
proof (cases location)
  case None
  then show ?thesis by (simp add: geocode_restaurant_None)
next
  case (Some loc)
  then show ?thesis
    by (simp add: geocode_restaurant_unfold split: prod.splits sum.splits)
qed

lemma geocode_try_fails_first:
  "net (length sent) query = Fails e \<Longrightarrow>
     fst (geocode_try net loc parts query sent) = Inl (Exception e)"
  by (simp add: geocode_try_def urlopen_def)

lemma geocode_try_fails_second:
  "net (length sent) query = Results [] \<Longrightarrow> fallback_parts loc \<noteq> [] \<Longrightarrow>
   fallback_parts loc \<noteq> parts \<Longrightarrow>
   net (Suc (length sent)) (join '', '' (fallback_parts loc)) = Fails e \<Longrightarrow>
     fst (geocode_try net loc parts query sent) = Inl (Exception e)"
  by (simp add: geocode_try_def urlopen_def Let_def)

lemma geocode_restaurant_try:
  "query_parts loc \<noteq> [] \<Longrightarrow>
   fst (geocode_try net loc (query_parts loc) (join '', '' (query_parts loc)) sent) = Inl x \<Longrightarrow>
     fst (geocode_restaurant net (Some loc) sent) = Inr None"
  by (cases "geocode_try net loc (query_parts loc) (join '', '' (query_parts loc)) sent")
    (simp add: geocode_restaurant_unfold)

lemma part_eval:
  "part ((k, Some (c # cs)) # rest) k = [c # cs]"
  "k' \<noteq> k \<Longrightarrow> part ((k', v) # rest) k = part rest k"
  "part [] k = []"
  by (simp_all add: part_def)

section \<open>Facts about the tracker and the handler\<close>

lemma is_duplicate_keys_iff:
  "is_duplicate_keys n ks \<longleftrightarrow> n \<in> normalize_url ` set ks"
  by (induction ks) auto

lemma is_duplicate_iff:
  "is_duplicate url tracker \<longleftrightarrow> (\<exists>k \<in> set (map fst tracker). normalize_url k = normalize_url url)"
  unfolding is_duplicate_def Let_def is_duplicate_keys_iff
  by (force simp: image_iff)

lemma not_duplicate_fresh: "\<not> is_duplicate url tracker \<Longrightarrow> url \<notin> fst ` set tracker"
  by (auto simp: is_duplicate_iff)

lemma update_fresh: "k \<notin> fst ` set al \<Longrightarrow> AList.update k v al = al @ [(k, v)]"
  by (induction al) auto

lemma at_most_once_update:
  "at_most_once tracker \<Longrightarrow> \<not> is_duplicate url tracker \<Longrightarrow>
     at_most_once (AList.update url entry tracker)"
  by (auto simp: update_fresh not_duplicate_fresh at_most_once_def is_duplicate_iff)

lemma load_tracker_primary: "primary w = Some t \<Longrightarrow> load_tracker gcs w = (Inr t, w)"
  by (simp add: load_tracker_def)

lemma load_tracker_restore:
  "primary w = None \<Longrightarrow> backup w = Some d \<Longrightarrow> d \<noteq> [] \<Longrightarrow>
     load_tracker None w = (Inr d, w\<lparr>primary := Some d\<rparr>)"
  by (simp add: load_tracker_def download_json_def)

lemma load_tracker_empty:
  "primary w = None \<Longrightarrow> gcs \<noteq> None \<or> backup w = None \<or> backup w = Some [] \<Longrightarrow>
     load_tracker gcs w = (Inr [], w)"
  by (auto simp: load_tracker_def download_json_def split: option.splits)

lemma load_tracker_Inr: "\<exists>t. fst (load_tracker gcs w) = Inr t"
  by (simp add: load_tracker_def download_json_def split: option.splits sum.splits)

lemma save_tracker_eq:
  "save_tracker gcs t w =
     (Inr (), w\<lparr>primary := Some t, backup := (if gcs = None then Some t else backup w)\<rparr>)"
  by (cases gcs) (simp_all add: save_tracker_def upload_json_def Let_def)

text \<open>What \<open>load_tracker\<close> leaves behind.\<close>

lemma load_tracker_cases:
  obtains tracker w1 where "load_tracker gcs w = (Inr tracker, w1)"
    "calls w1 = calls w" "geo_sent w1 = geo_sent w" "backup w1 = backup w"
    "primary w1 = primary w \<or> primary w1 = Some tracker"
    "tracker \<noteq> [] \<Longrightarrow> primary w1 = Some tracker"
    "primary w = Some tracker \<Longrightarrow> w1 = w"
    "primary w1 = Some tracker \<or> (tracker = [] \<and> primary w1 = None)"
    "tracker = [] \<or> primary w = Some tracker \<or> backup w = Some tracker"
proof (cases "primary w")
  case None
  show ?thesis
  proof (cases "download_json gcs w")
    case (Inl e)
    with None show ?thesis
      by (intro that [of "[]" w]) (simp_all add: load_tracker_def)
  next
    case (Inr data)
    show ?thesis
    proof (cases "data = None \<or> data = Some []")
      case True
      with None Inr show ?thesis
        by (intro that [of "[]" w]) (auto simp: load_tracker_def)
    next
      case False
      then obtain d where d: "data = Some d" "d \<noteq> []"
        by auto
      with Inr have "backup w = Some d"
        by (auto simp: download_json_def split: option.splits)
      with None Inr d show ?thesis
        by (intro that [of d "w\<lparr>primary := Some d\<rparr>"]) (simp_all add: load_tracker_def)
    qed
  qed
next
  case (Some t)
  then show ?thesis
    by (intro that [of t w]) (simp_all add: load_tracker_def)
qed

text \<open>The analysis writes neither store of the tracker.\<close>

lemma analyze_response_stores:
  "primary (snd (analyze_response g name vid url md text w)) = primary w
   \<and> backup (snd (analyze_response g name vid url md text w)) = backup w"
  by (simp add: analyze_response_def Let_def split: parsed.splits prod.splits option.splits)

lemma analyze_response_stores_result:
  "analyze_response g nm vid u md t w = (res, w') \<Longrightarrow>
     primary w' = primary w \<and> backup w' = backup w"
  using analyze_response_stores [of g nm vid u md t w]
  by simp

lemma analyze_video_cases:
  assumes "analyze_video g path url md w = Some (res, w')"
  shows "(\<exists>e. res = Inl e \<and> w' = w)
     \<or> (\<exists>t s. video_present g \<and> client g = None \<and> files_upload g = Inr s
           \<and> wait_while_processing (files_get g) 0 s = Some (Inr ''ACTIVE'')
           \<and> generate_content g = Inr t
           \<and> analyze_response g (path_name path) (stem (path_name path)) url md t w = (res, w'))"
proof (cases "video_present g")
  case False
  with assms show ?thesis
    by (auto simp: analyze_video_def)
next
  case present: True
  show ?thesis
  proof (cases "client g")
    case (Some e)
    with assms present show ?thesis
      by (auto simp: analyze_video_def)
  next
    case None
    show ?thesis
    proof (cases "files_upload g")
      case (Inl e)
      with assms present None show ?thesis
        by (auto simp: analyze_video_def)
    next
      case (Inr s)
      show ?thesis
      proof (cases "wait_while_processing (files_get g) 0 s")
        case none: None
        with assms present None Inr show ?thesis
          by (auto simp: analyze_video_def)
      next
        case (Some r)
        show ?thesis
        proof (cases r)
          case (Inl e)
          with assms present None Inr Some show ?thesis
            by (auto simp: analyze_video_def)
        next
          case state: (Inr state)
          show ?thesis
          proof (cases "state = ''ACTIVE''")
            case False
            with assms present None Inr Some state show ?thesis
              by (auto simp: analyze_video_def)
          next
            case True
            show ?thesis
            proof (cases "generate_content g")
              case (Inl e)
              with assms present None Inr Some state True show ?thesis
                by (auto simp: analyze_video_def)
            next
              case gen: (Inr t)
              with assms present None Inr Some state True show ?thesis
                by (auto simp: analyze_video_def)
            qed
          qed
        qed
      qed
    qed
  qed
qed

lemma analyze_video_stores:
  assumes "analyze_video g path url md w = Some (res, w')"
  shows "primary w' = primary w \<and> backup w' = backup w"
proof -
  from analyze_video_cases [OF assms]
  consider "w' = w"
    | t where "analyze_response g (path_name path) (stem (path_name path)) url md t w = (res, w')"
    by blast
  then show ?thesis
  proof cases
    case 1
    then show ?thesis by simp
  next
    case 2
    then show ?thesis by (rule analyze_response_stores_result)
  qed
qed

text \<open>The stages of the handler, each on what its collaborators give.\<close>

lemma persist_and_respond_eq:
  "persist_and_respond env url c s tracker fr dl res w4 =
     (Returned 200 (success_response fr dl (fst (caught res))
        (category_of (snd (caught res)) (fst (caught res)))),
      w4\<lparr>primary := Some (AList.update url
             (analysed_entry env c s fr dl (fst (caught res)) (snd (caught res))
                (category_of (snd (caught res)) (fst (caught res)))) tracker),
         backup := (if gcs_backup env = None
                    then Some (AList.update url
                      (analysed_entry env c s fr dl (fst (caught res)) (snd (caught res))
                         (category_of (snd (caught res)) (fst (caught res)))) tracker)
                    else backup w4),
         calls := calls w4 @
           (if category_of (snd (caught res)) (fst (caught res)) = ''restaurant''
            then [RebuildWebData] else [])\<rparr>)"
  by (simp add: persist_and_respond_def Let_def save_tracker_eq split: prod.splits)

lemma on_download_failed:
  "yt_download env url = Inl (Exception e) \<Longrightarrow>
     download_and_analyze env url c s tracker meta fr w2 =
       Some (Returned 500 [(''status'', JStr ''error''),
                           (''message'', JStr (''Download failed: '' @ e))],
             w2\<lparr>calls := calls w2 @ [DownloadVideo url]\<rparr>)"
  by (simp add: download_and_analyze_def download_video_def)

lemma on_download_succeeded:
  "yt_download env url = Inr dl \<Longrightarrow>
     download_and_analyze env url c s tracker meta fr w2 =
       (case analyze_video (gemini_api env) (''/tmp/tiktok_videos/'' @ dl_filename dl) url
               (Some (load_rich_metadata (sidecar env) meta))
               (w2\<lparr>calls := calls w2 @
                  [DownloadVideo url, AnalyzeVideo (''/tmp/tiktok_videos/'' @ dl_filename dl) url]\<rparr>) of
          None \<Rightarrow> None
        | Some (res, w4) \<Rightarrow> Some (persist_and_respond env url c s tracker fr dl res w4))"
  by (simp add: download_and_analyze_def download_video_def Let_def)

lemma on_metadata_failed:
  "yt_info env url = Inl (Exception e) \<Longrightarrow>
     extract_and_filter env url c s tracker w1 =
       Some (Returned 500 [(''status'', JStr ''error''),
                           (''message'', JStr (''Metadata failed: '' @ e))],
             w1\<lparr>calls := calls w1 @ [ExtractMetadata url]\<rparr>)"
  by (simp add: extract_and_filter_def extract_metadata_def)

lemma on_title_missing:
  "yt_info env url = Inr meta \<Longrightarrow> md_title meta = None \<Longrightarrow>
     extract_and_filter env url c s tracker w1 =
       Some (Unhandled title_not_subscriptable, w1\<lparr>calls := calls w1 @ [ExtractMetadata url]\<rparr>)"
  by (simp add: extract_and_filter_def extract_metadata_def)

lemma on_filtered_out:
  "yt_info env url = Inr meta \<Longrightarrow> md_title meta = Some title \<Longrightarrow>
   is_likely_restaurant meta = ''unlikely'' \<Longrightarrow>
     extract_and_filter env url c s tracker w1 =
       Some (Returned 200 (skipped_response title ''unlikely''),
             w1\<lparr>primary := Some (AList.update url
                    (skipped_entry env c s meta title ''unlikely'') tracker),
                backup := (if gcs_backup env = None
                           then Some (AList.update url
                             (skipped_entry env c s meta title ''unlikely'') tracker)
                           else backup w1),
                calls := calls w1 @ [ExtractMetadata url]\<rparr>)"
  by (simp add: extract_and_filter_def extract_metadata_def Let_def save_tracker_eq)

lemma on_filter_passed:
  "yt_info env url = Inr meta \<Longrightarrow> md_title meta = Some title \<Longrightarrow>
   is_likely_restaurant meta \<noteq> ''unlikely'' \<Longrightarrow>
     extract_and_filter env url c s tracker w1 =
       download_and_analyze env url c s tracker meta (is_likely_restaurant meta)
         (w1\<lparr>calls := calls w1 @ [ExtractMetadata url]\<rparr>)"
  by (simp add: extract_and_filter_def extract_metadata_def Let_def)

lemma handle_process_duplicate:
  "load_tracker (gcs_restore env) w = (Inr tracker, w1) \<Longrightarrow> is_duplicate url tracker \<Longrightarrow>
     handle_process env \<lparr>rq_url = Some url, rq_chat_name = c, rq_sender = s\<rparr> w =
       Some (Returned 200 [(''status'', JStr ''skipped''), (''message'', JStr ''Already processed'')], w1)"
  by (simp add: handle_process_def)

lemma handle_process_fresh:
  "load_tracker (gcs_restore env) w = (Inr tracker, w1) \<Longrightarrow> \<not> is_duplicate url tracker \<Longrightarrow>
     handle_process env \<lparr>rq_url = Some url, rq_chat_name = c, rq_sender = s\<rparr> w =
       extract_and_filter env url c s tracker w1"
  by (simp add: handle_process_def)

text \<open>Every run of the handler on a request with a URL is one of six.\<close>

lemma handle_process_run:
  assumes load: "load_tracker (gcs_restore env) w = (Inr tracker, w1)"
    and run: "handle_process env \<lparr>rq_url = Some url, rq_chat_name = c, rq_sender = s\<rparr> w = Some (out, w')"
  obtains (duplicate) "is_duplicate url tracker"
      "out = Returned 200 [(''status'', JStr ''skipped''), (''message'', JStr ''Already processed'')]"
      "w' = w1"
  | (metadata_failed) e where "\<not> is_duplicate url tracker" "yt_info env url = Inl (Exception e)"
      "out = Returned 500 [(''status'', JStr ''error''), (''message'', JStr (''Metadata failed: '' @ e))]"
      "w' = w1\<lparr>calls := calls w1 @ [ExtractMetadata url]\<rparr>"
  | (title_missing) meta where "\<not> is_duplicate url tracker" "yt_info env url = Inr meta"
      "md_title meta = None" "out = Unhandled title_not_subscriptable"
      "w' = w1\<lparr>calls := calls w1 @ [ExtractMetadata url]\<rparr>"
  | (filtered_out) meta title where "\<not> is_duplicate url tracker" "yt_info env url = Inr meta"
      "md_title meta = Some title" "is_likely_restaurant meta = ''unlikely''"
      "out = Returned 200 (skipped_response title ''unlikely'')"
      "primary w' = Some (AList.update url (skipped_entry env c s meta title ''unlikely'') tracker)"
      "backup w' = backup w1 \<or> backup w' = primary w'"
  | (download_failed) meta e where "\<not> is_duplicate url tracker" "yt_info env url = Inr meta"
      "is_likely_restaurant meta \<noteq> ''unlikely''" "yt_download env url = Inl (Exception e)"
      "out = Returned 500 [(''status'', JStr ''error''), (''message'', JStr (''Download failed: '' @ e))]"
      "w' = w1\<lparr>calls := calls w1 @ [ExtractMetadata url, DownloadVideo url]\<rparr>"
  | (analysed) meta dl res where "\<not> is_duplicate url tracker" "yt_info env url = Inr meta"
      "is_likely_restaurant meta \<noteq> ''unlikely''" "yt_download env url = Inr dl"
      "out = Returned 200 (success_response (is_likely_restaurant meta) dl (fst (caught res))
               (category_of (snd (caught res)) (fst (caught res))))"
      "primary w' = Some (AList.update url
          (analysed_entry env c s (is_likely_restaurant meta) dl (fst (caught res)) (snd (caught res))
             (category_of (snd (caught res)) (fst (caught res)))) tracker)"
      "backup w' = backup w1 \<or> backup w' = primary w'"
proof (cases "is_duplicate url tracker")
  case True
  with load run show ?thesis
    by (intro duplicate) (simp_all add: handle_process_duplicate)
next
  case fresh: False
  with load run
  have eaf: "extract_and_filter env url c s tracker w1 = Some (out, w')"
    by (simp add: handle_process_fresh)
  show ?thesis
  proof (cases "yt_info env url")
    case (Inl x)
    then obtain e where e: "yt_info env url = Inl (Exception e)"
      by (cases x) simp
    with eaf fresh show ?thesis
      by (intro metadata_failed [of e]) (simp_all add: on_metadata_failed)
  next
    case meta: (Inr meta)
    show ?thesis
    proof (cases "md_title meta")
      case None
      with eaf fresh meta show ?thesis
        by (intro title_missing [of meta]) (simp_all add: on_title_missing)
    next
      case title: (Some title)
      show ?thesis
      proof (cases "is_likely_restaurant meta = ''unlikely''")
        case True
        with eaf fresh meta title show ?thesis
          by (intro filtered_out [of meta title]) (auto simp: on_filtered_out)
      next
        case passed: False
        with eaf meta title
        have daa: "download_and_analyze env url c s tracker meta (is_likely_restaurant meta)
            (w1\<lparr>calls := calls w1 @ [ExtractMetadata url]\<rparr>) = Some (out, w')"
          by (simp add: on_filter_passed)
        show ?thesis
        proof (cases "yt_download env url")
          case (Inl x)
          then obtain e where e: "yt_download env url = Inl (Exception e)"
            by (cases x) simp
          with daa fresh meta passed show ?thesis
            by (intro download_failed [of meta e]) (simp_all add: on_download_failed)
        next
          case dl: (Inr dl)
          let ?w3 = "w1\<lparr>calls := calls w1 @ [ExtractMetadata url]\<rparr>\<lparr>calls :=
              calls (w1\<lparr>calls := calls w1 @ [ExtractMetadata url]\<rparr>) @
                [DownloadVideo url, AnalyzeVideo (''/tmp/tiktok_videos/'' @ dl_filename dl) url]\<rparr>"
          from daa dl obtain res w4 where
            av: "analyze_video (gemini_api env) (''/tmp/tiktok_videos/'' @ dl_filename dl) url
                   (Some (load_rich_metadata (sidecar env) meta)) ?w3 = Some (res, w4)"
            and par: "persist_and_respond env url c s tracker (is_likely_restaurant meta) dl res w4
                   = (out, w')"
            by (auto simp: on_download_succeeded split: option.splits)
          from analyze_video_stores [OF av] have st: "primary w4 = primary w1" "backup w4 = backup w1"
            by simp_all
          from par st fresh meta passed dl show ?thesis
            by (intro analysed [of meta dl res]) (auto simp: persist_and_respond_eq)
        qed
      qed
    qed
  qed
qed

lemma stores_at_most_once_load:
  assumes "stores_at_most_once w" and "load_tracker gcs w = (Inr tracker, w1)"
  shows "stores_at_most_once w1 \<and> at_most_once tracker"
proof -
  obtain t v where l: "load_tracker gcs w = (Inr t, v)" "backup v = backup w"
    "primary v = primary w \<or> primary v = Some t"
    "t = [] \<or> primary w = Some t \<or> backup w = Some t"
    by (rule load_tracker_cases [of gcs w]) blast
  with assms(2) have e: "t = tracker" "v = w1"
    by simp_all
  from l(4) assms(1) have "at_most_once t"
    by (auto simp: stores_at_most_once_def at_most_once_def split: option.splits)
  with l(2,3) assms(1) e show ?thesis
    by (auto simp: stores_at_most_once_def split: option.splits)
qed

lemma stores_at_most_once_write:
  assumes "stores_at_most_once w1" and "at_most_once tracker" and "\<not> is_duplicate url tracker"
    and "primary w' = Some (AList.update url entry tracker)"
    and "backup w' = backup w1 \<or> backup w' = primary w'"
  shows "stores_at_most_once w'"
  using assms at_most_once_update [of tracker url entry]
  by (auto simp: stores_at_most_once_def split: option.splits)

lemma stores_at_most_once_calls:
  "stores_at_most_once (w\<lparr>calls := cs\<rparr>) = stores_at_most_once w"
  by (simp add: stores_at_most_once_def)

lemma handle_process_at_most_once:
  assumes inv: "stores_at_most_once w" and run: "handle_process env req w = Some (out, w')"
  shows "stores_at_most_once w'"
proof -
  obtain u c s where req: "req = \<lparr>rq_url = u, rq_chat_name = c, rq_sender = s\<rparr>"
    by (cases req) simp
  show ?thesis
  proof (cases u)
    case None
    with run req inv show ?thesis
      by (simp add: handle_process_def)
  next
    case (Some url)
    obtain tracker w1 where load: "load_tracker (gcs_restore env) w = (Inr tracker, w1)"
      by (rule load_tracker_cases [of "gcs_restore env" w]) blast
    from stores_at_most_once_load [OF inv load]
    have w1: "stores_at_most_once w1" and t: "at_most_once tracker"
      by simp_all
    from run req Some
    have run': "handle_process env \<lparr>rq_url = Some url, rq_chat_name = c, rq_sender = s\<rparr> w = Some (out, w')"
      by simp
    from load run' show ?thesis
    proof (cases rule: handle_process_run)
      case duplicate
      with w1 show ?thesis by simp
    next
      case (metadata_failed e)
      with w1 show ?thesis by (simp add: stores_at_most_once_calls)
    next
      case (title_missing meta)
      with w1 show ?thesis by (simp add: stores_at_most_once_calls)
    next
      case (filtered_out meta title)
      with w1 t show ?thesis by (blast intro: stores_at_most_once_write)
    next
      case (download_failed meta e)
      with w1 show ?thesis by (simp add: stores_at_most_once_calls)
    next
      case (analysed meta dl res)
      with w1 t show ?thesis by (blast intro: stores_at_most_once_write)
    qed
  qed
qed

text \<open>Text that is not JSON: the analysis returns the empty list and does nothing else.\<close>

lemma analyze_response_not_json:
  "json_loads g t = None \<Longrightarrow> analyze_response g nm vid url md t w = (Inr [], w)"
  by (simp add: analyze_response_def)

lemma analyze_video_not_json:
  assumes "video_present g" and "client g = None" and "files_upload g = Inr s0"
    and "wait_while_processing (files_get g) 0 s0 = Some (Inr ''ACTIVE'')"
    and "generate_content g = Inr t" and "json_loads g t = None"
  shows "analyze_video g path url md w = Some (Inr [], w)"
  using assms by (simp add: analyze_video_def analyze_response_not_json)

lemma analyze_video_upload_raises:
  "video_present g \<Longrightarrow> client g = None \<Longrightarrow> files_upload g = Inl e \<Longrightarrow>
     analyze_video g path url md w = Some (Inl e, w)"
  by (simp add: analyze_video_def)

text \<open>The example runs.\<close>

lemma example_filter: "is_likely_restaurant example_meta = ''likely''"
proof -
  have b: "blob example_meta = ''best ramen spot in austin  chef ''"
    by code_simp
  have h: "length (filter (\<lambda>kw. contains kw ''best ramen spot in austin  chef '') HIGH_KEYWORDS) = 1"
    by code_simp
  have m: "length (filter (\<lambda>kw. contains kw ''best ramen spot in austin  chef '') MEDIUM_KEYWORDS) = 1"
    by code_simp
  have a: "length (filter (\<lambda>kw. contains kw ''best ramen spot in austin  chef '') ANTI_KEYWORDS) = 0"
    by code_simp
  have "score_text (blob example_meta) = 3 * int 1 + int 1 - 2 * int 0"
    by (simp only: score_text_matched matched_keywords b h m a)
  then show ?thesis
    by (simp add: is_likely_restaurant_def)
qed

lemma untitled_filter: "is_likely_restaurant untitled_meta = ''likely''"
proof -
  have b: "blob untitled_meta = '' best ramen spot in austin chef ''"
    by code_simp
  have h: "length (filter (\<lambda>kw. contains kw '' best ramen spot in austin chef '') HIGH_KEYWORDS) = 1"
    by code_simp
  have m: "length (filter (\<lambda>kw. contains kw '' best ramen spot in austin chef '') MEDIUM_KEYWORDS) = 1"
    by code_simp
  have a: "length (filter (\<lambda>kw. contains kw '' best ramen spot in austin chef '') ANTI_KEYWORDS) = 0"
    by code_simp
  have "score_text (blob untitled_meta) = 3 * int 1 + int 1 - 2 * int 0"
    by (simp only: score_text_matched matched_keywords b h m a)
  then show ?thesis
    by (simp add: is_likely_restaurant_def)
qed

text \<open>Upper case outside ASCII: a title in capitals with E-acute meets the keyword with e-acute.\<close>

lemma lower_latin1:
  "lower (''CAF'' @ [CHR 0xC9] @ '' de Flore'') = ''caf'' @ [CHR 0xE9] @ '' de flore''"
  by code_simp

lemma upper_case_accent_filter:
  "is_likely_restaurant
     \<lparr>md_title = Some (''CAF'' @ [CHR 0xC9] @ '' de Flore''), md_description = None,
      md_uploader = None, md_tags = None\<rparr> = ''likely''"
proof -
  let ?md = "\<lparr>md_title = Some (''CAF'' @ [CHR 0xC9] @ '' de Flore''), md_description = None,
      md_uploader = None, md_tags = None\<rparr>"
  let ?b = "''caf'' @ [CHR 0xE9] @ '' de flore   ''"
  have b: "blob ?md = ?b"
    by code_simp
  have h: "length (filter (\<lambda>kw. contains kw ?b) HIGH_KEYWORDS) = 1"
    by code_simp
  have m: "length (filter (\<lambda>kw. contains kw ?b) MEDIUM_KEYWORDS) = 0"
    by code_simp
  have a: "length (filter (\<lambda>kw. contains kw ?b) ANTI_KEYWORDS) = 0"
    by code_simp
  have "score_text (blob ?md) = 3 * int 1 + int 0 - 2 * int 0"
    by (simp only: score_text_matched matched_keywords b h m a)
  then show ?thesis
    by (simp add: is_likely_restaurant_def)
qed

lemma example_polling:
  "wait_while_processing (files_get (example_gemini up)) 0 ''PROCESSING'' = Some (Inr ''ACTIVE'')"
  by (simp add: wait_while_processing.simps example_gemini_def)

lemma example_analysis:
  "analyze_video (example_gemini (Inr ''PROCESSING'')) path url md w = Some (Inr [], w)"
  by (rule analyze_video_not_json [where ?s0.0 = "''PROCESSING''" and t = "''Sorry, no restaurants here.''"])
    (simp_all add: example_polling, simp_all add: example_gemini_def)

lemma example_load: "load_tracker None empty_world = (Inr [], empty_world)"
  by (simp add: load_tracker_def download_json_def empty_world_def)

lemma example_fresh: "\<not> is_duplicate url []"
  by (simp add: is_duplicate_def)

lemma example_run_to_analysis:
  "handle_process (example_env up) example_request empty_world =
     (case analyze_video (example_gemini up) ''/tmp/tiktok_videos/123.mp4'' example_url
             (Some example_meta)
             (empty_world\<lparr>calls := [ExtractMetadata example_url, DownloadVideo example_url,
                AnalyzeVideo ''/tmp/tiktok_videos/123.mp4'' example_url]\<rparr>) of
        None \<Rightarrow> None
      | Some (res, w4) \<Rightarrow>
          Some (persist_and_respond (example_env up) example_url ''food'' ''sam'' [] ''likely''
                  example_dl res w4))"
proof -
  have l: "load_tracker (gcs_restore (example_env up)) empty_world = (Inr [], empty_world)"
    by (simp add: example_env_def example_load)
  have i: "yt_info (example_env up) example_url = Inr example_meta"
    by (simp add: example_env_def)
  have d: "yt_download (example_env up) example_url = Inr example_dl"
    by (simp add: example_env_def)
  have t: "md_title example_meta = Some ''best ramen spot in Austin''"
    by (simp add: example_meta_def)
  have p: "is_likely_restaurant example_meta \<noteq> ''unlikely''"
    by (simp add: example_filter)
  have "handle_process (example_env up) example_request empty_world =
      extract_and_filter (example_env up) example_url ''food'' ''sam'' [] empty_world"
    unfolding example_request_def
    by (rule handle_process_fresh [OF l example_fresh])
  also have "\<dots> = download_and_analyze (example_env up) example_url ''food'' ''sam'' [] example_meta
      (is_likely_restaurant example_meta) (empty_world\<lparr>calls := calls empty_world @ [ExtractMetadata example_url]\<rparr>)"
    by (rule on_filter_passed [OF i t p])
  also have "\<dots> = (case analyze_video (example_gemini up) ''/tmp/tiktok_videos/123.mp4'' example_url
             (Some example_meta)
             (empty_world\<lparr>calls := [ExtractMetadata example_url, DownloadVideo example_url,
                AnalyzeVideo ''/tmp/tiktok_videos/123.mp4'' example_url]\<rparr>) of
        None \<Rightarrow> None
      | Some (res, w4) \<Rightarrow>
          Some (persist_and_respond (example_env up) example_url ''food'' ''sam'' [] ''likely''
                  example_dl res w4))"
    by (simp add: on_download_succeeded [OF d] example_filter)
      (simp add: example_env_def example_dl_def load_rich_metadata_def empty_world_def)
  finally show ?thesis .
qed

lemma update_not_duplicate:
  "\<not> is_duplicate url tracker \<Longrightarrow> AList.update url entry tracker = tracker @ [(url, entry)]"
  by (simp add: update_fresh not_duplicate_fresh)

lemma skipped_entry_category:
  "map_of (skipped_entry env c s meta title fr) ''category'' = Some (JStr ''skipped_not_restaurant'')"
  by (simp add: skipped_entry_def)

lemma analysed_entry_fields:
  "map_of (analysed_entry env c s fr dl analysis err category) ''category'' = Some (JStr category)"
  "map_of (analysed_entry env c s fr dl analysis err category) ''restaurants_found''
     = Some (JNum (length analysis))"
  "map_of (analysed_entry env c s fr dl analysis err category) ''analysis_file''
     = Some (if analysis \<noteq> [] then JStr (dl_id dl @ ''_analysis.json'') else JNull)"
  "map_of (analysed_entry env c s fr dl analysis err category) ''analysis_error'' = Some (opt_str err)"
  by (simp_all add: analysed_entry_def)

lemma category_of_cases:
  "category_of err analysis \<in> set [''restaurant'', ''not_restaurant'', ''analysis_failed'']"
  by (simp add: category_of_def)

lemma example_run_not_json:
  "handle_process (example_env (Inr ''PROCESSING'')) example_request empty_world =
     Some (Returned 200 (success_response ''likely'' example_dl [] ''not_restaurant''),
           \<lparr>primary = Some [(example_url, analysed_entry (example_env (Inr ''PROCESSING''))
                              ''food'' ''sam'' ''likely'' example_dl [] None ''not_restaurant'')],
            backup = Some [(example_url, analysed_entry (example_env (Inr ''PROCESSING''))
                              ''food'' ''sam'' ''likely'' example_dl [] None ''not_restaurant'')],
            geo_sent = [],
            calls = [ExtractMetadata example_url, DownloadVideo example_url,
                     AnalyzeVideo ''/tmp/tiktok_videos/123.mp4'' example_url]\<rparr>)"
  by (simp add: example_run_to_analysis example_analysis persist_and_respond_eq caught_def
      category_of_def)
    (simp add: example_env_def empty_world_def)

lemma example_equivalent_url:
  "normalize_url ''https://tiktok.com/@chef/video/123/#top'' = normalize_url example_url"
  by (simp add: normalize_url_def split0_def rstrip_chr_def example_url_def)

text \<open>
  The runs on a request with a URL that is not a duplicate of a key of the tracker loaded.
  When metadata extraction raises, and when the download raises, the handler returns 500
  and the state is the one \<open>load_tracker\<close> left but for the calls made. Every response
  with status 200 comes with the tracker file written as the tracker loaded plus one entry,
  for the submitted URL, whose category is one of \<open>skipped_not_restaurant\<close>,
  \<open>restaurant\<close>, \<open>not_restaurant\<close>, \<open>analysis_failed\<close>. A run that ends with the
  tracker file as \<open>load_tracker\<close> left it is one of three: the 500 after a failure of
  metadata extraction, the 500 after a failure of the download, and the exception of the
  log line for a title that is \<open>None\<close>.
\<close>

lemma handle_process_write_paths:
  assumes "load_tracker (gcs_restore env) w = (Inr tracker, w1)"
    and "\<not> is_duplicate url tracker"
  shows "(yt_info env url = Inl (Exception e) \<longrightarrow>
            handle_process env \<lparr>rq_url = Some url, rq_chat_name = c, rq_sender = s\<rparr> w =
              Some (Returned 500 [(''status'', JStr ''error''),
                                  (''message'', JStr (''Metadata failed: '' @ e))],
                    w1\<lparr>calls := calls w1 @ [ExtractMetadata url]\<rparr>))
       \<and> (yt_info env url = Inr meta \<and> md_title meta = Some title
            \<and> is_likely_restaurant meta \<noteq> ''unlikely'' \<and> yt_download env url = Inl (Exception e)
            \<longrightarrow>
            handle_process env \<lparr>rq_url = Some url, rq_chat_name = c, rq_sender = s\<rparr> w =
              Some (Returned 500 [(''status'', JStr ''error''),
                                  (''message'', JStr (''Download failed: '' @ e))],
                    w1\<lparr>calls := calls w1 @ [ExtractMetadata url, DownloadVideo url]\<rparr>))
       \<and> (handle_process env \<lparr>rq_url = Some url, rq_chat_name = c, rq_sender = s\<rparr> w =
              Some (Returned 200 body, w') \<longrightarrow>
            (\<exists>entry category.
               primary w' = Some (tracker @ [(url, entry)])
               \<and> map_of entry ''category'' = Some (JStr category)
               \<and> category \<in> set [''skipped_not_restaurant'', ''restaurant'', ''not_restaurant'',
                                  ''analysis_failed'']))
       \<and> (handle_process env \<lparr>rq_url = Some url, rq_chat_name = c, rq_sender = s\<rparr> w =
              Some (out, w') \<and> primary w' = primary w1 \<longrightarrow>
            backup w' = backup w1
            \<and> ((\<exists>x. yt_info env url = Inl (Exception x)
                      \<and> out = Returned 500 [(''status'', JStr ''error''),
                                             (''message'', JStr (''Metadata failed: '' @ x))])
               \<or> (\<exists>x. yt_download env url = Inl (Exception x)
                      \<and> out = Returned 500 [(''status'', JStr ''error''),
                                             (''message'', JStr (''Download failed: '' @ x))])
               \<or> (\<exists>m. yt_info env url = Inr m \<and> md_title m = None
                      \<and> out = Unhandled title_not_subscriptable)))"
proof (intro conjI impI)
  assume "yt_info env url = Inl (Exception e)"
  with assms
  show "handle_process env \<lparr>rq_url = Some url, rq_chat_name = c, rq_sender = s\<rparr> w =
      Some (Returned 500 [(''status'', JStr ''error''), (''message'', JStr (''Metadata failed: '' @ e))],
            w1\<lparr>calls := calls w1 @ [ExtractMetadata url]\<rparr>)"
    by (simp add: handle_process_fresh on_metadata_failed)
next
  assume a: "yt_info env url = Inr meta \<and> md_title meta = Some title
      \<and> is_likely_restaurant meta \<noteq> ''unlikely'' \<and> yt_download env url = Inl (Exception e)"
  then have "extract_and_filter env url c s tracker w1 =
      download_and_analyze env url c s tracker meta (is_likely_restaurant meta)
        (w1\<lparr>calls := calls w1 @ [ExtractMetadata url]\<rparr>)"
    by (simp add: on_filter_passed)
  with a assms
  show "handle_process env \<lparr>rq_url = Some url, rq_chat_name = c, rq_sender = s\<rparr> w =
      Some (Returned 500 [(''status'', JStr ''error''), (''message'', JStr (''Download failed: '' @ e))],
            w1\<lparr>calls := calls w1 @ [ExtractMetadata url, DownloadVideo url]\<rparr>)"
    by (simp add: handle_process_fresh on_download_failed)
next
  assume run: "handle_process env \<lparr>rq_url = Some url, rq_chat_name = c, rq_sender = s\<rparr> w =
      Some (Returned 200 body, w')"
  from assms(1) run
  show "\<exists>entry category. primary w' = Some (tracker @ [(url, entry)])
      \<and> map_of entry ''category'' = Some (JStr category)
      \<and> category \<in> set [''skipped_not_restaurant'', ''restaurant'', ''not_restaurant'',
                         ''analysis_failed'']"
  proof (cases rule: handle_process_run)
    case duplicate
    with assms(2) show ?thesis by simp
  next
    case (metadata_failed x)
    then show ?thesis by simp
  next
    case (title_missing meta)
    then show ?thesis by simp
  next
    case (filtered_out meta title)
    then have "primary w' = Some (tracker @ [(url, skipped_entry env c s meta title ''unlikely'')])"
      by (simp add: update_not_duplicate)
    then show ?thesis
      using skipped_entry_category [of env c s meta title "''unlikely''"]
      by (intro exI [of _ "skipped_entry env c s meta title ''unlikely''"]
          exI [of _ "''skipped_not_restaurant''"]) simp
  next
    case (download_failed meta x)
    then show ?thesis by simp
  next
    case (analysed meta dl res)
    let ?cat = "category_of (snd (caught res)) (fst (caught res))"
    let ?entry = "analysed_entry env c s (is_likely_restaurant meta) dl (fst (caught res))
        (snd (caught res)) ?cat"
    from analysed have "primary w' = Some (tracker @ [(url, ?entry)])"
      by (simp add: update_not_duplicate)
    moreover have "map_of ?entry ''category'' = Some (JStr ?cat)"
      by (rule analysed_entry_fields)
    moreover have "?cat \<in> set [''skipped_not_restaurant'', ''restaurant'', ''not_restaurant'',
        ''analysis_failed'']"
      using category_of_cases [of "snd (caught res)" "fst (caught res)"] by auto
    ultimately show ?thesis
      by blast
  qed
next
  assume run: "handle_process env \<lparr>rq_url = Some url, rq_chat_name = c, rq_sender = s\<rparr> w =
      Some (out, w') \<and> primary w' = primary w1"
  obtain t x where l: "load_tracker (gcs_restore env) w = (Inr t, x)"
    "primary x = Some t \<or> (t = [] \<and> primary x = None)"
    by (rule load_tracker_cases [of "gcs_restore env" w]) blast
  with assms(1) have p: "primary w1 = Some tracker \<or> (tracker = [] \<and> primary w1 = None)"
    by auto
  have nw: "primary w1 \<noteq> Some (tracker @ [(url, entry)])" for entry
    using p by auto
  from run have r: "handle_process env \<lparr>rq_url = Some url, rq_chat_name = c, rq_sender = s\<rparr> w =
      Some (out, w')" and same: "primary w' = primary w1"
    by simp_all
  from assms(1) r
  have "backup w' = backup w1
      \<and> ((\<exists>x. yt_info env url = Inl (Exception x)
                \<and> out = Returned 500 [(''status'', JStr ''error''),
                                       (''message'', JStr (''Metadata failed: '' @ x))])
         \<or> (\<exists>x. yt_download env url = Inl (Exception x)
                \<and> out = Returned 500 [(''status'', JStr ''error''),
                                       (''message'', JStr (''Download failed: '' @ x))])
         \<or> (\<exists>m. yt_info env url = Inr m \<and> md_title m = None
                \<and> out = Unhandled title_not_subscriptable))"
  proof (cases rule: handle_process_run)
    case duplicate
    with assms(2) show ?thesis by simp
  next
    case (metadata_failed x)
    then show ?thesis by simp
  next
    case (title_missing meta)
    then show ?thesis by simp
  next
    case (filtered_out meta title)
    with same nw [of "skipped_entry env c s meta title ''unlikely''"] show ?thesis
      by (simp add: update_not_duplicate)
  next
    case (download_failed meta x)
    then show ?thesis by simp
  next
    case (analysed meta dl res)
    with same nw [of "analysed_entry env c s (is_likely_restaurant meta) dl (fst (caught res))
        (snd (caught res)) (category_of (snd (caught res)) (fst (caught res)))"] show ?thesis
      by (simp add: update_not_duplicate)
  qed
  then show "backup w' = backup w1"
    and "(\<exists>x. yt_info env url = Inl (Exception x)
                \<and> out = Returned 500 [(''status'', JStr ''error''),
                                       (''message'', JStr (''Metadata failed: '' @ x))])
         \<or> (\<exists>x. yt_download env url = Inl (Exception x)
                \<and> out = Returned 500 [(''status'', JStr ''error''),
                                       (''message'', JStr (''Download failed: '' @ x))])
         \<or> (\<exists>m. yt_info env url = Inr m \<and> md_title m = None
                \<and> out = Unhandled title_not_subscriptable)"
    by simp_all
qed

section \<open>The claims\<close>

text \<open>
  C7. \<open>normalize_url\<close> is a function of the URL alone, defined on every string. Its
  value is determined by the URL: it is the part of the URL before its first \<open>?\<close> or
  \<open>#\<close>, less the slashes that part ends in, and it does not end in a slash; it is its
  own normal form. Appending a query string, a fragment or trailing slashes to a URL, in
  any combination (trailing slashes, then a query string or none, then a fragment or
  none), does not change its normal form, so two URLs that differ only in these have the
  same normal form, character for character. Five URLs are normalised at the end.
\<close>

theorem normalize_url_equivalence:
  "(\<exists>n. takeWhile (\<lambda>c. c \<noteq> CHR ''?'' \<and> c \<noteq> CHR ''#'') url = normalize_url url @ replicate n CHR ''/'')
   \<and> \<not> suffix ''/'' (normalize_url url)
   \<and> normalize_url (normalize_url url) = normalize_url url
   \<and> normalize_url (u @ CHR ''?'' # x) = normalize_url u
   \<and> normalize_url (u @ CHR ''#'' # y) = normalize_url u
   \<and> normalize_url (u @ replicate k CHR ''/'') = normalize_url u
   \<and> normalize_url (u @ replicate k CHR ''/''
         @ (case q of None \<Rightarrow> [] | Some x \<Rightarrow> CHR ''?'' # x)
         @ (case f of None \<Rightarrow> [] | Some y \<Rightarrow> CHR ''#'' # y)) = normalize_url u
   \<and> normalize_url ''https://www.tiktok.com/@chef/video/123//?lang=en&x=1#top''
       = ''https://www.tiktok.com/@chef/video/123''
   \<and> normalize_url ''https://www.tiktok.com/@chef/video/123#top/?lang=en''
       = ''https://www.tiktok.com/@chef/video/123''
   \<and> normalize_url ''https://www.tiktok.com/@chef/video/123''
       = ''https://www.tiktok.com/@chef/video/123''
   \<and> normalize_url ''https://www.tiktok.com/@chef/video/124/''
       = ''https://www.tiktok.com/@chef/video/124''
   \<and> normalize_url ''//?a'' = []"
proof -
  have e1: "normalize_url ''https://www.tiktok.com/@chef/video/123//?lang=en&x=1#top''
       = ''https://www.tiktok.com/@chef/video/123''"
    by (simp add: normalize_url_def split0_def rstrip_chr_def)
  have e2: "normalize_url ''https://www.tiktok.com/@chef/video/123#top/?lang=en''
       = ''https://www.tiktok.com/@chef/video/123''"
    by (simp add: normalize_url_def split0_def rstrip_chr_def)
  have e3: "normalize_url ''https://www.tiktok.com/@chef/video/123''
       = ''https://www.tiktok.com/@chef/video/123''"
    by (simp add: normalize_url_def split0_def rstrip_chr_def)
  have e4: "normalize_url ''https://www.tiktok.com/@chef/video/124/''
       = ''https://www.tiktok.com/@chef/video/124''"
    by (simp add: normalize_url_def split0_def rstrip_chr_def)
  have e5: "normalize_url ''//?a'' = []"
    by (simp add: normalize_url_def split0_def rstrip_chr_def)
  from normalize_url_prefix [of url] normalize_url_stripped [of url] normalize_url_idem [of url]
    normalize_url_query [of u x] normalize_url_fragment [of u y] normalize_url_slashes [of u k]
    normalize_url_tail [of u k q f] e1 e2 e3 e4 e5
  show ?thesis
    by (intro conjI)
qed

text \<open>
  C4, as the code has it. The score is three times the number of high-confidence keywords
  that occur in the text blob, plus the number of medium-confidence keywords that occur
  in it, minus twice the number of anti-keywords that occur in it. A keyword of a list
  is counted once when it occurs anywhere in the blob, in however many fields.
\<close>

theorem score_counts_keyword_once:
  "score_text (blob md) =
     3 * int (matched HIGH_KEYWORDS (blob md)) + int (matched MEDIUM_KEYWORDS (blob md))
       - 2 * int (matched ANTI_KEYWORDS (blob md))
   \<and> matched HIGH_KEYWORDS (blob md) = length (filter (\<lambda>kw. contains kw (blob md)) HIGH_KEYWORDS)
   \<and> matched MEDIUM_KEYWORDS (blob md) = length (filter (\<lambda>kw. contains kw (blob md)) MEDIUM_KEYWORDS)
   \<and> matched ANTI_KEYWORDS (blob md) = length (filter (\<lambda>kw. contains kw (blob md)) ANTI_KEYWORDS)"
  by (simp add: score_text_matched matched_keywords)

text \<open>
  C4 as stated fails: with the keyword \<open>ramen\<close> in the title and in the description,
  counting each field occurrence gives 6, and the code gives 3.
\<close>

theorem score_per_field_counterexample:
  "score_text (blob \<lparr>md_title = Some ''Ramen'', md_description = Some ''ramen'',
                      md_uploader = None, md_tags = None\<rparr>) = 3
   \<and> score_per_field_spec \<lparr>md_title = Some ''Ramen'', md_description = Some ''ramen'',
                      md_uploader = None, md_tags = None\<rparr> = 6"
proof -
  let ?md = "\<lparr>md_title = Some ''Ramen'', md_description = Some ''ramen'',
               md_uploader = None, md_tags = None\<rparr>"
  have b: "blob ?md = ''ramen ramen  ''"
    by code_simp
  have f: "field_texts ?md = [''ramen'', ''ramen'', [], []]"
    by code_simp
  have h: "length (filter (\<lambda>kw. contains kw ''ramen ramen  '') HIGH_KEYWORDS) = 1"
    by code_simp
  have m: "length (filter (\<lambda>kw. contains kw ''ramen ramen  '') MEDIUM_KEYWORDS) = 0"
    by code_simp
  have a: "length (filter (\<lambda>kw. contains kw ''ramen ramen  '') ANTI_KEYWORDS) = 0"
    by code_simp
  have h': "length (concat (map (\<lambda>kw. filter (contains kw) [''ramen'', ''ramen'', [], []]) HIGH_KEYWORDS)) = 2"
    by code_simp
  have m': "length (concat (map (\<lambda>kw. filter (contains kw) [''ramen'', ''ramen'', [], []]) MEDIUM_KEYWORDS)) = 0"
    by code_simp
  have a': "length (concat (map (\<lambda>kw. filter (contains kw) [''ramen'', ''ramen'', [], []]) ANTI_KEYWORDS)) = 0"
    by code_simp
  have "score_text (blob ?md) = 3 * int 1 + int 0 - 2 * int 0"
    by (simp only: score_text_matched matched_keywords b h m a)
  moreover have "score_per_field_spec ?md = 3 * int 2 + int 0 - 2 * int 0"
    by (simp only: score_per_field_spec_def occurrences_keywords f h' m' a')
  ultimately show ?thesis
    by simp
qed

text \<open>
  C6. With 3 for each high-confidence keyword that occurs in the blob, 1 for each
  medium-confidence keyword and \<open>- 2\<close> for each anti-keyword, the verdict is \<open>likely\<close>
  exactly when the score is at least 3, \<open>maybe\<close> exactly when it is at least \<open>- 1\<close> and
  below 3, \<open>unlikely\<close> exactly when it is below \<open>- 1\<close>. A blob in which one
  high-confidence keyword occurs and no other keyword scores 3 and is \<open>likely\<close>; one
  medium-confidence keyword and one anti-keyword score \<open>- 1\<close> and are \<open>maybe\<close>; two
  anti-keywords alone score \<open>- 4\<close> and are \<open>unlikely\<close>.
\<close>

theorem verdict_mapping:
  "(is_likely_restaurant md = ''likely'' \<longleftrightarrow> 3 \<le> score_text (blob md))
   \<and> (is_likely_restaurant md = ''maybe'' \<longleftrightarrow> - 1 \<le> score_text (blob md) \<and> score_text (blob md) < 3)
   \<and> (is_likely_restaurant md = ''unlikely'' \<longleftrightarrow> score_text (blob md) < - 1)
   \<and> score_text (blob md) =
        3 * int (matched HIGH_KEYWORDS (blob md)) + 1 * int (matched MEDIUM_KEYWORDS (blob md))
          + (- 2) * int (matched ANTI_KEYWORDS (blob md))
   \<and> (matched HIGH_KEYWORDS (blob md) = 1 \<and> matched MEDIUM_KEYWORDS (blob md) = 0
        \<and> matched ANTI_KEYWORDS (blob md) = 0
        \<longrightarrow> score_text (blob md) = 3 \<and> is_likely_restaurant md = ''likely'')
   \<and> (matched HIGH_KEYWORDS (blob md) = 0 \<and> matched MEDIUM_KEYWORDS (blob md) = 1
        \<and> matched ANTI_KEYWORDS (blob md) = 1
        \<longrightarrow> score_text (blob md) = - 1 \<and> is_likely_restaurant md = ''maybe'')
   \<and> (matched HIGH_KEYWORDS (blob md) = 0 \<and> matched MEDIUM_KEYWORDS (blob md) = 0
        \<and> matched ANTI_KEYWORDS (blob md) = 2
        \<longrightarrow> score_text (blob md) = - 4 \<and> is_likely_restaurant md = ''unlikely'')"
  by (simp add: is_likely_restaurant_def score_text_matched Let_def)

text \<open>
  The three cases of C6 on metadata: the title \<open>Sushi\<close>; the title \<open>curry\<close> with the
  description \<open>prank\<close>; the title \<open>prank\<close> with the tag \<open>coding\<close>.
\<close>

theorem verdict_mapping_witness:
  "matched HIGH_KEYWORDS (blob \<lparr>md_title = Some ''Sushi'', md_description = None,
       md_uploader = None, md_tags = None\<rparr>) = 1
   \<and> matched MEDIUM_KEYWORDS (blob \<lparr>md_title = Some ''Sushi'', md_description = None,
       md_uploader = None, md_tags = None\<rparr>) = 0
   \<and> matched ANTI_KEYWORDS (blob \<lparr>md_title = Some ''Sushi'', md_description = None,
       md_uploader = None, md_tags = None\<rparr>) = 0
   \<and> score_text (blob \<lparr>md_title = Some ''Sushi'', md_description = None,
       md_uploader = None, md_tags = None\<rparr>) = 3
   \<and> is_likely_restaurant \<lparr>md_title = Some ''Sushi'', md_description = None,
       md_uploader = None, md_tags = None\<rparr> = ''likely''
   \<and> matched HIGH_KEYWORDS (blob \<lparr>md_title = Some ''curry'', md_description = Some ''prank'',
       md_uploader = None, md_tags = None\<rparr>) = 0
   \<and> matched MEDIUM_KEYWORDS (blob \<lparr>md_title = Some ''curry'', md_description = Some ''prank'',
       md_uploader = None, md_tags = None\<rparr>) = 1
   \<and> matched ANTI_KEYWORDS (blob \<lparr>md_title = Some ''curry'', md_description = Some ''prank'',
       md_uploader = None, md_tags = None\<rparr>) = 1
   \<and> score_text (blob \<lparr>md_title = Some ''curry'', md_description = Some ''prank'',
       md_uploader = None, md_tags = None\<rparr>) = - 1
   \<and> is_likely_restaurant \<lparr>md_title = Some ''curry'', md_description = Some ''prank'',
       md_uploader = None, md_tags = None\<rparr> = ''maybe''
   \<and> matched HIGH_KEYWORDS (blob \<lparr>md_title = Some ''prank'', md_description = None,
       md_uploader = None, md_tags = Some [''coding'']\<rparr>) = 0
   \<and> matched MEDIUM_KEYWORDS (blob \<lparr>md_title = Some ''prank'', md_description = None,
       md_uploader = None, md_tags = Some [''coding'']\<rparr>) = 0
   \<and> matched ANTI_KEYWORDS (blob \<lparr>md_title = Some ''prank'', md_description = None,
       md_uploader = None, md_tags = Some [''coding'']\<rparr>) = 2
   \<and> score_text (blob \<lparr>md_title = Some ''prank'', md_description = None,
       md_uploader = None, md_tags = Some [''coding'']\<rparr>) = - 4
   \<and> is_likely_restaurant \<lparr>md_title = Some ''prank'', md_description = None,
       md_uploader = None, md_tags = Some [''coding'']\<rparr> = ''unlikely''"
proof -
  let ?m1 = "\<lparr>md_title = Some ''Sushi'', md_description = None,
       md_uploader = None, md_tags = None\<rparr>"
  let ?m2 = "\<lparr>md_title = Some ''curry'', md_description = Some ''prank'',
       md_uploader = None, md_tags = None\<rparr>"
  let ?m3 = "\<lparr>md_title = Some ''prank'', md_description = None,
       md_uploader = None, md_tags = Some [''coding'']\<rparr>"
  have b1: "blob ?m1 = ''sushi   ''" by code_simp
  have b2: "blob ?m2 = ''curry prank  ''" by code_simp
  have b3: "blob ?m3 = ''prank   coding''" by code_simp
  have h1: "length (filter (\<lambda>kw. contains kw ''sushi   '') HIGH_KEYWORDS) = 1" by code_simp
  have m1: "length (filter (\<lambda>kw. contains kw ''sushi   '') MEDIUM_KEYWORDS) = 0" by code_simp
  have a1: "length (filter (\<lambda>kw. contains kw ''sushi   '') ANTI_KEYWORDS) = 0" by code_simp
  have h2: "length (filter (\<lambda>kw. contains kw ''curry prank  '') HIGH_KEYWORDS) = 0" by code_simp
  have m2: "length (filter (\<lambda>kw. contains kw ''curry prank  '') MEDIUM_KEYWORDS) = 1" by code_simp
  have a2: "length (filter (\<lambda>kw. contains kw ''curry prank  '') ANTI_KEYWORDS) = 1" by code_simp
  have h3: "length (filter (\<lambda>kw. contains kw ''prank   coding'') HIGH_KEYWORDS) = 0" by code_simp
  have m3: "length (filter (\<lambda>kw. contains kw ''prank   coding'') MEDIUM_KEYWORDS) = 0" by code_simp
  have a3: "length (filter (\<lambda>kw. contains kw ''prank   coding'') ANTI_KEYWORDS) = 2" by code_simp
  have c1: "matched HIGH_KEYWORDS (blob ?m1) = 1 \<and> matched MEDIUM_KEYWORDS (blob ?m1) = 0
      \<and> matched ANTI_KEYWORDS (blob ?m1) = 0"
    by (simp only: matched_keywords b1 h1 m1 a1)
  have c2: "matched HIGH_KEYWORDS (blob ?m2) = 0 \<and> matched MEDIUM_KEYWORDS (blob ?m2) = 1
      \<and> matched ANTI_KEYWORDS (blob ?m2) = 1"
    by (simp only: matched_keywords b2 h2 m2 a2)
  have c3: "matched HIGH_KEYWORDS (blob ?m3) = 0 \<and> matched MEDIUM_KEYWORDS (blob ?m3) = 0
      \<and> matched ANTI_KEYWORDS (blob ?m3) = 2"
    by (simp only: matched_keywords b3 h3 m3 a3)
  from c1 verdict_mapping [of ?m1]
  have r1: "score_text (blob ?m1) = 3 \<and> is_likely_restaurant ?m1 = ''likely''"
    by blast
  from c2 verdict_mapping [of ?m2]
  have r2: "score_text (blob ?m2) = - 1 \<and> is_likely_restaurant ?m2 = ''maybe''"
    by blast
  from c3 verdict_mapping [of ?m3]
  have r3: "score_text (blob ?m3) = - 4 \<and> is_likely_restaurant ?m3 = ''unlikely''"
    by blast
  from c1 c2 c3 r1 r2 r3 show ?thesis
    by blast
qed

text \<open>
  C5, as the code has it. When the first query returns an empty result set, the requests
  of the call are the first query and, after it, one fallback query when the fallback
  parts (the city if present, then the country if present) are not empty and their query
  differs from the first query; no other request is sent. So with both city and country
  absent there is no fallback request, with both present and a differing query there is
  exactly one, for \<open>city, country\<close>; and no call sends more than two requests.
\<close>

theorem geocode_fallback_rule:
  assumes "query_parts loc \<noteq> []"
    and "net (length sent) (join '', '' (query_parts loc)) = Results []"
  shows "snd (geocode_restaurant net (Some loc) sent) =
           sent @ [join '', '' (query_parts loc)] @
             (if fallback_parts loc \<noteq> []
                 \<and> join '', '' (fallback_parts loc) \<noteq> join '', '' (query_parts loc)
              then [join '', '' (fallback_parts loc)] else [])
         \<and> fallback_parts loc = part loc ''city'' @ part loc ''country''
         \<and> (part loc ''city'' = [] \<and> part loc ''country'' = [] \<longrightarrow>
              snd (geocode_restaurant net (Some loc) sent) = sent @ [join '', '' (query_parts loc)])
         \<and> (part loc ''city'' = [city] \<and> part loc ''country'' = [country]
              \<and> city @ '', '' @ country \<noteq> join '', '' (query_parts loc) \<longrightarrow>
              snd (geocode_restaurant net (Some loc) sent) =
                sent @ [join '', '' (query_parts loc), city @ '', '' @ country])
         \<and> length (snd (geocode_restaurant net' location' sent')) \<le> length sent' + 2"
proof -
  have s: "snd (geocode_restaurant net (Some loc) sent) =
           sent @ [join '', '' (query_parts loc)] @
             (if fallback_parts loc \<noteq> []
                 \<and> join '', '' (fallback_parts loc) \<noteq> join '', '' (query_parts loc)
              then [join '', '' (fallback_parts loc)] else [])"
    using assms parts_differ_iff [of loc]
    by (simp add: geocode_restaurant_sent geocode_try_sent)
  have f: "fallback_parts loc = part loc ''city'' @ part loc ''country''"
    by (simp add: fallback_parts_def)
  have a: "part loc ''city'' = [] \<and> part loc ''country'' = [] \<longrightarrow>
      snd (geocode_restaurant net (Some loc) sent) = sent @ [join '', '' (query_parts loc)]"
    using s f by simp
  have b: "part loc ''city'' = [city] \<and> part loc ''country'' = [country]
              \<and> city @ '', '' @ country \<noteq> join '', '' (query_parts loc) \<longrightarrow>
              snd (geocode_restaurant net (Some loc) sent) =
                sent @ [join '', '' (query_parts loc), city @ '', '' @ country]"
    using s f by simp
  show ?thesis
    using s f a b geocode_restaurant_length [of net' location' sent']
    by blast
qed

text \<open>C5 on an address in Leeds, UK, with a service that finds nothing.\<close>

theorem geocode_fallback_rule_witness:
  "query_parts [(''specific_address'', Some ''1 High St''), (''city'', Some ''Leeds''),
                (''country'', Some ''UK'')] \<noteq> []
   \<and> (\<lambda>i q. Results []) (length ([] :: string list))
        (join '', '' (query_parts [(''specific_address'', Some ''1 High St''),
           (''city'', Some ''Leeds''), (''country'', Some ''UK'')])) = Results []
   \<and> snd (geocode_restaurant (\<lambda>i q. Results [])
        (Some [(''specific_address'', Some ''1 High St''), (''city'', Some ''Leeds''),
               (''country'', Some ''UK'')]) [])
      = [''1 High St, Leeds, UK'', ''Leeds, UK'']"
proof -
  let ?loc = "[(''specific_address'', Some ''1 High St''), (''city'', Some ''Leeds''),
               (''country'', Some ''UK'')]"
  have q: "query_parts ?loc = [''1 High St'', ''Leeds'', ''UK'']"
    by (simp add: query_parts_def part_eval)
  have f: "fallback_parts ?loc = [''Leeds'', ''UK'']"
    by (simp add: fallback_parts_def part_eval)
  have h1: "query_parts ?loc \<noteq> []"
    by (simp add: q)
  have h2: "(\<lambda>i q. Results []) (length ([] :: string list))
        (join '', '' (query_parts ?loc)) = Results []"
    by simp
  from geocode_fallback_rule [of ?loc "\<lambda>i q. Results []" "[]", OF h1 h2]
  have "snd (geocode_restaurant (\<lambda>i q. Results []) (Some ?loc) [])
      = [''1 High St, Leeds, UK'', ''Leeds, UK'']"
    by (simp add: q f)
  with h1 h2 show ?thesis
    by blast
qed

text \<open>
  C5 as stated fails: a location with a neighbourhood and a city and no country gets a
  fallback request, for the city alone.
\<close>

theorem geocode_fallback_counterexample:
  "part [(''neighborhood'', Some ''Soho''), (''city'', Some ''London'')] ''country'' = []
   \<and> geocode_restaurant (\<lambda>i q. Results [])
        (Some [(''neighborhood'', Some ''Soho''), (''city'', Some ''London'')]) []
      = (Inr None, [''Soho, London'', ''London''])"
proof -
  let ?loc = "[(''neighborhood'', Some ''Soho''), (''city'', Some ''London'')]"
  have q: "query_parts ?loc = [''Soho'', ''London'']"
    by (simp add: query_parts_def part_eval)
  have f: "fallback_parts ?loc = [''London'']"
    by (simp add: fallback_parts_def part_eval)
  have c: "part ?loc ''country'' = []"
    by (simp add: part_eval)
  have "geocode_restaurant (\<lambda>i q. Results []) (Some ?loc) [] = (Inr None, [''Soho, London'', ''London''])"
    by (simp add: geocode_restaurant_unfold geocode_try_def urlopen_def q f)
  with c show ?thesis
    by simp
qed

text \<open>
  C9. No exception leaves \<open>geocode_restaurant\<close>. For \<open>None\<close>, for the empty dict and
  for a location none of whose five fields is a non-empty string it returns \<open>None\<close> and
  sends no request. If any request the call sends fails (network error, timeout,
  undecodable reply), it returns \<open>None\<close>.
\<close>

theorem geocode_restaurant_non_fatal:
  "(\<exists>r. fst (geocode_restaurant net location sent) = Inr r)
   \<and> (location = None \<or> location = Some [] \<or> (\<exists>loc. location = Some loc \<and> query_parts loc = [])
        \<longrightarrow> geocode_restaurant net location sent = (Inr None, sent))
   \<and> ((\<exists>i e. length sent \<le> i \<and> i < length (snd (geocode_restaurant net location sent))
              \<and> net i (snd (geocode_restaurant net location sent) ! i) = Fails e)
        \<longrightarrow> fst (geocode_restaurant net location sent) = Inr None)"
proof (intro conjI impI)
  show "\<exists>r. fst (geocode_restaurant net location sent) = Inr r"
    by (rule geocode_restaurant_Inr)
next
  assume "location = None \<or> location = Some [] \<or> (\<exists>loc. location = Some loc \<and> query_parts loc = [])"
  then consider "location = None" | "location = Some []"
    | loc where "location = Some loc" "query_parts loc = []"
    by blast
  then show "geocode_restaurant net location sent = (Inr None, sent)"
  proof cases
    case 1
    then show ?thesis by (simp add: geocode_restaurant_None)
  next
    case 2
    then show ?thesis by (simp add: geocode_restaurant_def)
  next
    case 3
    then show ?thesis by (simp add: geocode_restaurant_unfold)
  qed
next
  assume "\<exists>i e. length sent \<le> i \<and> i < length (snd (geocode_restaurant net location sent))
              \<and> net i (snd (geocode_restaurant net location sent) ! i) = Fails e"
  then obtain i e where i: "length sent \<le> i"
    "i < length (snd (geocode_restaurant net location sent))"
    "net i (snd (geocode_restaurant net location sent) ! i) = Fails e"
    by blast
  have "location \<noteq> None"
  proof
    assume "location = None"
    then have "snd (geocode_restaurant net location sent) = sent"
      by (simp add: geocode_restaurant_None)
    with i(1,2) show False
      by simp
  qed
  then obtain loc where loc: "location = Some loc"
    by blast
  have qp: "query_parts loc \<noteq> []"
  proof
    assume "query_parts loc = []"
    then have "snd (geocode_restaurant net location sent) = sent"
      by (simp add: loc geocode_restaurant_sent)
    with i(1,2) show False
      by simp
  qed
  let ?q = "join '', '' (query_parts loc)"
  let ?f = "join '', '' (fallback_parts loc)"
  let ?fb = "net (length sent) ?q = Results [] \<and> fallback_parts loc \<noteq> []
           \<and> fallback_parts loc \<noteq> query_parts loc"
  have sent': "snd (geocode_restaurant net location sent) =
      sent @ [?q] @ (if ?fb then [?f] else [])"
    using loc qp by (simp add: geocode_restaurant_sent geocode_try_sent)
  have "\<exists>x. fst (geocode_try net loc (query_parts loc) ?q sent) = Inl x"
  proof (cases "i = length sent")
    case True
    with i(3) have "net (length sent) ?q = Fails e"
      by (simp add: sent' nth_append)
    then show ?thesis
      by (simp add: geocode_try_fails_first)
  next
    case False
    have fb: "?fb"
    proof (rule ccontr)
      assume "\<not> ?fb"
      then have "length (snd (geocode_restaurant net location sent)) = Suc (length sent)"
        by (simp add: sent')
      with i(1,2) False show False
        by simp
    qed
    then have len: "snd (geocode_restaurant net location sent) = sent @ [?q, ?f]"
      by (simp add: sent')
    with i(1,2) False have i2: "i = Suc (length sent)"
      by simp
    from i(3) have "net (Suc (length sent)) ?f = Fails e"
      by (simp add: len i2 nth_append)
    with fb show ?thesis
      by (simp add: geocode_try_fails_second)
  qed
  then obtain x where "fst (geocode_try net loc (query_parts loc) ?q sent) = Inl x"
    by blast
  with qp loc show "fst (geocode_restaurant net location sent) = Inr None"
    by (simp add: geocode_restaurant_try)
qed

text \<open>
  C9 on a service whose second reply is a timeout, and on a location without query fields
  and the location \<open>None\<close> with an unreachable service.
\<close>

theorem geocode_restaurant_non_fatal_witness:
  "geocode_restaurant (\<lambda>i q. if i = 0 then Results [] else Fails ''timed out'')
        (Some [(''specific_address'', Some ''1 High St''), (''city'', Some ''Leeds'')]) []
       = (Inr None, [''1 High St, Leeds'', ''Leeds''])
   \<and> (\<lambda>i q. if i = 0 then Results [] else Fails ''timed out'') (1 :: nat) ''Leeds''
       = Fails ''timed out''
   \<and> geocode_restaurant (\<lambda>i q. Fails ''unreachable'') (Some [(''city'', Some [])]) [] = (Inr None, [])
   \<and> geocode_restaurant (\<lambda>i q. Fails ''unreachable'') None [] = (Inr None, [])"
proof -
  let ?net = "\<lambda>i q. if i = (0 :: nat) then Results [] else Fails ''timed out''"
  let ?down = "\<lambda>(i :: nat) (q :: string). Fails ''unreachable''"
  let ?loc = "[(''specific_address'', Some ''1 High St''), (''city'', Some ''Leeds'')]"
  have q: "query_parts ?loc = [''1 High St'', ''Leeds'']"
    by (simp add: query_parts_def part_eval)
  have f: "fallback_parts ?loc = [''Leeds'']"
    by (simp add: fallback_parts_def part_eval)
  have s: "snd (geocode_restaurant ?net (Some ?loc) []) = [''1 High St, Leeds'', ''Leeds'']"
    by (simp add: geocode_restaurant_sent geocode_try_sent q f)
  have "\<exists>i e. length ([] :: string list) \<le> i
      \<and> i < length (snd (geocode_restaurant ?net (Some ?loc) []))
      \<and> ?net i (snd (geocode_restaurant ?net (Some ?loc) []) ! i) = Fails e"
    unfolding s by (rule exI [of _ 1]) simp
  with geocode_restaurant_non_fatal [of ?net "Some ?loc" "[]"]
  have "fst (geocode_restaurant ?net (Some ?loc) []) = Inr None"
    by blast
  with s have a: "geocode_restaurant ?net (Some ?loc) [] = (Inr None, [''1 High St, Leeds'', ''Leeds''])"
    by (simp add: prod_eq_iff)
  have "query_parts [(''city'', Some [])] = []"
    by (simp add: query_parts_def part_def)
  with geocode_restaurant_non_fatal [of ?down "Some [(''city'', Some [])]" "[]"]
  have b: "geocode_restaurant ?down (Some [(''city'', Some [])]) [] = (Inr None, [])"
    by blast
  from geocode_restaurant_non_fatal [of ?down None "[]"]
  have c: "geocode_restaurant ?down None [] = (Inr None, [])"
    by blast
  from a b c show ?thesis
    by simp
qed

text \<open>
  C8, as the code has it. \<open>load_tracker\<close> returns the content of the tracker file when
  the file exists. Otherwise, when the bucket can be read and the backup holds a tracker
  that is not empty, it writes that tracker to the file and returns it; when the bucket
  cannot be read, or holds no backup, or the backup is empty, it returns the empty
  tracker and writes nothing. No exception leaves it. \<open>save_tracker\<close> writes the tracker
  to the file and then to the backup; when the backup cannot be written it still returns,
  with the file written.
\<close>

theorem tracker_stores_non_fatal:
  "(primary w = Some t \<longrightarrow> load_tracker gcs w = (Inr t, w))
   \<and> (primary w = None \<and> gcs = None \<and> backup w = Some d \<and> d \<noteq> [] \<longrightarrow>
        load_tracker gcs w = (Inr d, w\<lparr>primary := Some d\<rparr>))
   \<and> (primary w = None \<and> (gcs \<noteq> None \<or> backup w = None \<or> backup w = Some []) \<longrightarrow>
        load_tracker gcs w = (Inr [], w))
   \<and> (\<exists>loaded. fst (load_tracker gcs w) = Inr loaded)
   \<and> fst (save_tracker gcs' t' w') = Inr ()
   \<and> primary (snd (save_tracker gcs' t' w')) = Some t'
   \<and> (gcs' = None \<longrightarrow> snd (save_tracker gcs' t' w') = w'\<lparr>primary := Some t', backup := Some t'\<rparr>)
   \<and> (gcs' \<noteq> None \<longrightarrow> snd (save_tracker gcs' t' w') = w'\<lparr>primary := Some t'\<rparr>)"
  using load_tracker_primary [of w t gcs] load_tracker_restore [of w d]
    load_tracker_empty [of w gcs] load_tracker_Inr [of gcs w]
  by (auto simp: save_tracker_eq)

text \<open>C8 on a cold start with a backup, with and without a reachable bucket, and on
  saving with and without one.\<close>

theorem tracker_stores_non_fatal_witness:
  "load_tracker None \<lparr>primary = None, backup = Some [(''https://vm.tiktok.com/a'', [(''category'', JStr ''restaurant'')])],
        geo_sent = [], calls = []\<rparr>
     = (Inr [(''https://vm.tiktok.com/a'', [(''category'', JStr ''restaurant'')])],
        \<lparr>primary = Some [(''https://vm.tiktok.com/a'', [(''category'', JStr ''restaurant'')])],
         backup = Some [(''https://vm.tiktok.com/a'', [(''category'', JStr ''restaurant'')])],
         geo_sent = [], calls = []\<rparr>)
   \<and> load_tracker (Some (Exception ''unreachable''))
        \<lparr>primary = None, backup = Some [(''https://vm.tiktok.com/a'', [(''category'', JStr ''restaurant'')])],
        geo_sent = [], calls = []\<rparr>
     = (Inr [], \<lparr>primary = None, backup = Some [(''https://vm.tiktok.com/a'', [(''category'', JStr ''restaurant'')])],
        geo_sent = [], calls = []\<rparr>)
   \<and> load_tracker (Some (Exception ''unreachable''))
        \<lparr>primary = Some [(''https://vm.tiktok.com/b'', [])], backup = None, geo_sent = [], calls = []\<rparr>
     = (Inr [(''https://vm.tiktok.com/b'', [])],
        \<lparr>primary = Some [(''https://vm.tiktok.com/b'', [])], backup = None, geo_sent = [], calls = []\<rparr>)
   \<and> save_tracker (Some (Exception ''unreachable'')) [(''https://vm.tiktok.com/b'', [])]
        \<lparr>primary = None, backup = None, geo_sent = [], calls = []\<rparr>
     = (Inr (), \<lparr>primary = Some [(''https://vm.tiktok.com/b'', [])], backup = None,
                 geo_sent = [], calls = []\<rparr>)
   \<and> save_tracker None [(''https://vm.tiktok.com/b'', [])]
        \<lparr>primary = None, backup = None, geo_sent = [], calls = []\<rparr>
     = (Inr (), \<lparr>primary = Some [(''https://vm.tiktok.com/b'', [])],
                 backup = Some [(''https://vm.tiktok.com/b'', [])], geo_sent = [], calls = []\<rparr>)"
proof -
  let ?t = "[(''https://vm.tiktok.com/a'', [(''category'', JStr ''restaurant'')])]"
  let ?u = "[(''https://vm.tiktok.com/b'', [])] :: tracker"
  let ?w = "\<lparr>primary = None, backup = Some ?t, geo_sent = [], calls = []\<rparr>"
  let ?v = "\<lparr>primary = Some ?u, backup = None, geo_sent = [], calls = []\<rparr>"
  let ?z = "\<lparr>primary = None, backup = None, geo_sent = [], calls = []\<rparr> :: world"
  let ?e = "Some (Exception ''unreachable'')"
  from tracker_stores_non_fatal [of ?w undefined None ?t None ?u ?z]
  have a: "load_tracker None ?w = (Inr ?t, ?w\<lparr>primary := Some ?t\<rparr>)"
    and e: "snd (save_tracker None ?u ?z) = ?z\<lparr>primary := Some ?u, backup := Some ?u\<rparr>"
    and e': "fst (save_tracker None ?u ?z) = Inr ()"
    by simp_all
  from tracker_stores_non_fatal [of ?w undefined ?e ?t ?e ?u ?z]
  have b: "load_tracker ?e ?w = (Inr [], ?w)"
    and d: "snd (save_tracker ?e ?u ?z) = ?z\<lparr>primary := Some ?u\<rparr>"
    and d': "fst (save_tracker ?e ?u ?z) = Inr ()"
    by simp_all
  from tracker_stores_non_fatal [of ?v ?u ?e]
  have c: "load_tracker ?e ?v = (Inr ?u, ?v)"
    by simp
  from a b c d d' e e' show ?thesis
    by (simp add: prod_eq_iff)
qed

text \<open>
  C8 as stated fails: a backup that holds the empty tracker is returned and is not
  written to the file.
\<close>

theorem load_tracker_empty_backup_counterexample:
  "load_tracker None \<lparr>primary = None, backup = Some [], geo_sent = [], calls = []\<rparr>
     = (Inr [], \<lparr>primary = None, backup = Some [], geo_sent = [], calls = []\<rparr>)"
  by (simp add: load_tracker_def download_json_def)

text \<open>
  C1. \<open>is_duplicate\<close> holds exactly when a key of the tracker has the normal form of the
  URL. When it holds of the tracker loaded, the handler returns 200 with status
  \<open>skipped\<close> and the state \<open>load_tracker\<close> left: no collaborator is called, the backup
  is as before, the tracker file holds the tracker loaded, and nothing at all has changed
  if the file was there before. Every run that returns keeps the invariant that no two
  keys of a store have the same normal form.
\<close>

theorem at_most_once_processing:
  "(is_duplicate url tracker \<longleftrightarrow> (\<exists>k \<in> set (map fst tracker). normalize_url k = normalize_url url))
   \<and> (load_tracker (gcs_restore env) w = (Inr tracker, w1) \<and> is_duplicate url tracker \<longrightarrow>
        handle_process env \<lparr>rq_url = Some url, rq_chat_name = c, rq_sender = s\<rparr> w
          = Some (Returned 200 [(''status'', JStr ''skipped''),
                                (''message'', JStr ''Already processed'')], w1)
        \<and> primary w1 = Some tracker \<and> backup w1 = backup w \<and> calls w1 = calls w
        \<and> geo_sent w1 = geo_sent w \<and> (primary w = Some tracker \<longrightarrow> w1 = w))
   \<and> (stores_at_most_once v \<and> handle_process env' req v = Some (out, v') \<longrightarrow>
        stores_at_most_once v')"
proof (intro conjI impI)
  show "is_duplicate url tracker \<longleftrightarrow> (\<exists>k \<in> set (map fst tracker). normalize_url k = normalize_url url)"
    by (rule is_duplicate_iff)
next
  assume a: "load_tracker (gcs_restore env) w = (Inr tracker, w1) \<and> is_duplicate url tracker"
  then show "handle_process env \<lparr>rq_url = Some url, rq_chat_name = c, rq_sender = s\<rparr> w
          = Some (Returned 200 [(''status'', JStr ''skipped''),
                                (''message'', JStr ''Already processed'')], w1)"
    by (simp add: handle_process_duplicate)
  from a have ne: "tracker \<noteq> []"
    by (auto simp: is_duplicate_iff)
  obtain t x where l: "load_tracker (gcs_restore env) w = (Inr t, x)"
    "calls x = calls w" "geo_sent x = geo_sent w" "backup x = backup w"
    "t \<noteq> [] \<Longrightarrow> primary x = Some t" "primary w = Some t \<Longrightarrow> x = w"
    by (rule load_tracker_cases [of "gcs_restore env" w]) blast
  with a have e: "t = tracker" "x = w1"
    by simp_all
  from l(5) ne e show "primary w1 = Some tracker" by simp
  from l(4) e show "backup w1 = backup w" by simp
  from l(2) e show "calls w1 = calls w" by simp
  from l(3) e show "geo_sent w1 = geo_sent w" by simp
  show "w1 = w" if "primary w = Some tracker"
    using l(6) e that by simp
next
  assume "stores_at_most_once v \<and> handle_process env' req v = Some (out, v')"
  then show "stores_at_most_once v'"
    using handle_process_at_most_once by blast
qed

text \<open>
  C1 on a tracker that holds the example URL, for a resubmission that differs in the
  query string, the fragment and a trailing slash; and the invariant across the example
  run from the empty state.
\<close>

theorem at_most_once_processing_witness:
  "is_duplicate ''https://tiktok.com/@chef/video/123/#top'' [(example_url, [])]
   \<and> load_tracker (gcs_restore (example_env (Inr ''PROCESSING'')))
         \<lparr>primary = Some [(example_url, [])], backup = None, geo_sent = [], calls = []\<rparr>
       = (Inr [(example_url, [])],
          \<lparr>primary = Some [(example_url, [])], backup = None, geo_sent = [], calls = []\<rparr>)
   \<and> handle_process (example_env (Inr ''PROCESSING''))
         \<lparr>rq_url = Some ''https://tiktok.com/@chef/video/123/#top'', rq_chat_name = ''food'',
          rq_sender = ''sam''\<rparr>
         \<lparr>primary = Some [(example_url, [])], backup = None, geo_sent = [], calls = []\<rparr>
       = Some (Returned 200 [(''status'', JStr ''skipped''), (''message'', JStr ''Already processed'')],
               \<lparr>primary = Some [(example_url, [])], backup = None, geo_sent = [], calls = []\<rparr>)
   \<and> stores_at_most_once empty_world
   \<and> stores_at_most_once
        \<lparr>primary = Some [(example_url, analysed_entry (example_env (Inr ''PROCESSING''))
                              ''food'' ''sam'' ''likely'' example_dl [] None ''not_restaurant'')],
         backup = Some [(example_url, analysed_entry (example_env (Inr ''PROCESSING''))
                              ''food'' ''sam'' ''likely'' example_dl [] None ''not_restaurant'')],
         geo_sent = [],
         calls = [ExtractMetadata example_url, DownloadVideo example_url,
                  AnalyzeVideo ''/tmp/tiktok_videos/123.mp4'' example_url]\<rparr>"
proof -
  let ?env = "example_env (Inr ''PROCESSING'')"
  let ?u = "''https://tiktok.com/@chef/video/123/#top''"
  let ?t = "[(example_url, [])] :: tracker"
  let ?w = "\<lparr>primary = Some ?t, backup = None, geo_sent = [], calls = []\<rparr>"
  note T = at_most_once_processing [where url = ?u and tracker = ?t and env = ?env and w = ?w
      and ?w1.0 = ?w and c = "''food''" and s = "''sam''" and v = empty_world and env' = ?env
      and req = example_request]
  have "\<exists>k \<in> set (map fst ?t). normalize_url k = normalize_url ?u"
    by (simp add: example_equivalent_url)
  with T [THEN conjunct1] have d: "is_duplicate ?u ?t"
    by (rule iffD2)
  have l: "load_tracker (gcs_restore ?env) ?w = (Inr ?t, ?w)"
    by (simp add: load_tracker_primary)
  from T [THEN conjunct2, THEN conjunct1, rule_format, OF conjI [OF l d], THEN conjunct1]
  have r: "handle_process ?env \<lparr>rq_url = Some ?u, rq_chat_name = ''food'', rq_sender = ''sam''\<rparr> ?w
      = Some (Returned 200 [(''status'', JStr ''skipped''), (''message'', JStr ''Already processed'')], ?w)" .
  have e: "stores_at_most_once empty_world"
    by (simp add: stores_at_most_once_def empty_world_def)
  from T [THEN conjunct2, THEN conjunct2, rule_format, OF conjI [OF e example_run_not_json]]
  have i: "stores_at_most_once
        \<lparr>primary = Some [(example_url, analysed_entry ?env ''food'' ''sam'' ''likely'' example_dl [] None ''not_restaurant'')],
         backup = Some [(example_url, analysed_entry ?env ''food'' ''sam'' ''likely'' example_dl [] None ''not_restaurant'')],
         geo_sent = [],
         calls = [ExtractMetadata example_url, DownloadVideo example_url,
                  AnalyzeVideo ''/tmp/tiktok_videos/123.mp4'' example_url]\<rparr>" .
  from d l r e i show ?thesis
    by blast
qed

text \<open>
  C2 at a submission whose metadata has no title. The URL is not a duplicate, metadata
  extraction succeeds, and the filter, which reads a missing title as the empty text,
  answers \<open>likely\<close>; the log line that follows slices the title and raises. The run ends
  with that exception: the handler returns no response, downloads nothing and writes no
  entry, and the same submission sent again is taken up again. This end without a tracker
  write is neither the duplicate skip nor a failure of metadata extraction or of the
  download.
\<close>

theorem missing_title_ends_without_tracker_write:
  "handle_process untitled_env example_request empty_world
     = Some (Unhandled title_not_subscriptable,
             \<lparr>primary = None, backup = None, geo_sent = [], calls = [ExtractMetadata example_url]\<rparr>)
   \<and> load_tracker (gcs_restore untitled_env) empty_world = (Inr [], empty_world)
   \<and> \<not> is_duplicate example_url []
   \<and> yt_info untitled_env example_url = Inr untitled_meta
   \<and> md_title untitled_meta = None
   \<and> is_likely_restaurant untitled_meta = ''likely''
   \<and> handle_process untitled_env example_request
        \<lparr>primary = None, backup = None, geo_sent = [], calls = [ExtractMetadata example_url]\<rparr>
     = Some (Unhandled title_not_subscriptable,
             \<lparr>primary = None, backup = None, geo_sent = [],
              calls = [ExtractMetadata example_url, ExtractMetadata example_url]\<rparr>)"
proof -
  have g: "gcs_restore untitled_env = None"
    by (simp add: untitled_env_def example_env_def)
  have i: "yt_info untitled_env example_url = Inr untitled_meta"
    by (simp add: untitled_env_def)
  have t: "md_title untitled_meta = None"
    by (simp add: untitled_meta_def)
  have l: "load_tracker (gcs_restore untitled_env) empty_world = (Inr [], empty_world)"
    by (simp add: g example_load)
  let ?w = "\<lparr>primary = None, backup = None, geo_sent = [], calls = [ExtractMetadata example_url]\<rparr>"
  have l2: "load_tracker (gcs_restore untitled_env) ?w = (Inr [], ?w)"
    by (simp add: g load_tracker_def download_json_def)
  have "handle_process untitled_env example_request empty_world
      = extract_and_filter untitled_env example_url ''food'' ''sam'' [] empty_world"
    unfolding example_request_def
    by (rule handle_process_fresh [OF l example_fresh])
  also have "\<dots> = Some (Unhandled title_not_subscriptable,
      empty_world\<lparr>calls := calls empty_world @ [ExtractMetadata example_url]\<rparr>)"
    by (rule on_title_missing [OF i t])
  finally have r1: "handle_process untitled_env example_request empty_world
     = Some (Unhandled title_not_subscriptable, ?w)"
    by (simp add: empty_world_def)
  have "handle_process untitled_env example_request ?w
      = extract_and_filter untitled_env example_url ''food'' ''sam'' [] ?w"
    unfolding example_request_def
    by (rule handle_process_fresh [OF l2 example_fresh])
  also have "\<dots> = Some (Unhandled title_not_subscriptable,
      ?w\<lparr>calls := calls ?w @ [ExtractMetadata example_url]\<rparr>)"
    by (rule on_title_missing [OF i t])
  finally have r2: "handle_process untitled_env example_request ?w
     = Some (Unhandled title_not_subscriptable,
             \<lparr>primary = None, backup = None, geo_sent = [],
              calls = [ExtractMetadata example_url, ExtractMetadata example_url]\<rparr>)"
    by simp
  from r1 l example_fresh [of example_url] i t untitled_filter r2 show ?thesis
    by (intro conjI)
qed

text \<open>
  C3 at an analysis that raises an exception whose text is empty (here the upload of
  the video): the run reaches the persist step, and the entry it writes has category
  \<open>not_restaurant\<close>, not \<open>analysis_failed\<close>, with the empty text as its error. The
  truth test of step 8 on \<open>str(e)\<close> takes the empty text for no error.
\<close>

theorem empty_error_text_recorded_as_not_restaurant:
  "handle_process (example_env (Inl (Exception []))) example_request empty_world =
     Some (Returned 200 (success_response ''likely'' example_dl [] ''not_restaurant''),
           \<lparr>primary = Some [(example_url, analysed_entry (example_env (Inl (Exception [])))
                              ''food'' ''sam'' ''likely'' example_dl [] (Some []) ''not_restaurant'')],
            backup = Some [(example_url, analysed_entry (example_env (Inl (Exception [])))
                              ''food'' ''sam'' ''likely'' example_dl [] (Some []) ''not_restaurant'')],
            geo_sent = [],
            calls = [ExtractMetadata example_url, DownloadVideo example_url,
                     AnalyzeVideo ''/tmp/tiktok_videos/123.mp4'' example_url]\<rparr>)
   \<and> files_upload (gemini_api (example_env (Inl (Exception [])))) = Inl (Exception [])
   \<and> map_of (analysed_entry (example_env (Inl (Exception []))) ''food'' ''sam'' ''likely''
         example_dl [] (Some []) ''not_restaurant'') ''category'' = Some (JStr ''not_restaurant'')
   \<and> map_of (analysed_entry (example_env (Inl (Exception []))) ''food'' ''sam'' ''likely''
         example_dl [] (Some []) ''not_restaurant'') ''analysis_error'' = Some (JStr [])
   \<and> category_of (Some []) [] = ''not_restaurant''
   \<and> category_of (Some ''timed out'') [] = ''analysis_failed''"
proof -
  have u: "analyze_video (example_gemini (Inl (Exception []))) path url md w = Some (Inl (Exception []), w)"
    for path url md w
    by (rule analyze_video_upload_raises) (simp_all add: example_gemini_def)
  have "handle_process (example_env (Inl (Exception []))) example_request empty_world =
     Some (Returned 200 (success_response ''likely'' example_dl [] ''not_restaurant''),
           \<lparr>primary = Some [(example_url, analysed_entry (example_env (Inl (Exception [])))
                              ''food'' ''sam'' ''likely'' example_dl [] (Some []) ''not_restaurant'')],
            backup = Some [(example_url, analysed_entry (example_env (Inl (Exception [])))
                              ''food'' ''sam'' ''likely'' example_dl [] (Some []) ''not_restaurant'')],
            geo_sent = [],
            calls = [ExtractMetadata example_url, DownloadVideo example_url,
                     AnalyzeVideo ''/tmp/tiktok_videos/123.mp4'' example_url]\<rparr>)"
    by (simp add: example_run_to_analysis u persist_and_respond_eq caught_def category_of_def)
      (simp add: example_env_def empty_world_def)
  moreover have "files_upload (gemini_api (example_env (Inl (Exception [])))) = Inl (Exception [])"
    by (simp add: example_env_def example_gemini_def)
  moreover have "map_of (analysed_entry (example_env (Inl (Exception []))) ''food'' ''sam'' ''likely''
         example_dl [] (Some []) ''not_restaurant'') ''category'' = Some (JStr ''not_restaurant'')"
    by (simp add: analysed_entry_def)
  moreover have "map_of (analysed_entry (example_env (Inl (Exception []))) ''food'' ''sam'' ''likely''
         example_dl [] (Some []) ''not_restaurant'') ''analysis_error'' = Some (JStr [])"
    by (simp add: analysed_entry_def opt_str_def)
  moreover have "category_of (Some []) [] = ''not_restaurant''"
    by (simp add: category_of_def)
  moreover have "category_of (Some ''timed out'') [] = ''analysis_failed''"
    by (simp add: category_of_def)
  ultimately show ?thesis
    by blast
qed

text \<open>
  C10. When the upload is accepted, the file becomes \<open>ACTIVE\<close> and the text the model
  returns is not valid JSON, \<open>analyze_video\<close> returns the empty list and changes nothing:
  no envelope is uploaded, no geocoding request is sent. For a URL that is not a
  duplicate, passes the filter and downloads, the handler then returns 200 and adds to
  the tracker one entry for the URL with category \<open>not_restaurant\<close>, no restaurants
  found, no analysis file and no error; the calls made are those of metadata extraction,
  download and analysis. Every later submission of a URL with the same normal form is
  answered \<open>skipped\<close> on that state, whatever the collaborators would do.
\<close>

theorem invalid_json_not_restaurant:
  assumes g: "video_present (gemini_api env)" "client (gemini_api env) = None"
      "files_upload (gemini_api env) = Inr s0"
      "wait_while_processing (files_get (gemini_api env)) 0 s0 = Some (Inr ''ACTIVE'')"
      "generate_content (gemini_api env) = Inr t" "json_loads (gemini_api env) t = None"
    and pre: "yt_info env url = Inr meta" "md_title meta = Some title"
      "is_likely_restaurant meta \<noteq> ''unlikely''" "yt_download env url = Inr dl"
    and load: "load_tracker (gcs_restore env) w = (Inr tracker, w1)"
      "\<not> is_duplicate url tracker"
  shows "analyze_video (gemini_api env) path u md v = Some (Inr [], v)
     \<and> (\<exists>w'. handle_process env \<lparr>rq_url = Some url, rq_chat_name = c, rq_sender = s\<rparr> w =
               Some (Returned 200
                       (success_response (is_likely_restaurant meta) dl [] ''not_restaurant''), w')
             \<and> primary w' = Some (tracker @ [(url,
                   analysed_entry env c s (is_likely_restaurant meta) dl [] None ''not_restaurant'')])
             \<and> calls w' = calls w @ [ExtractMetadata url, DownloadVideo url,
                   AnalyzeVideo (''/tmp/tiktok_videos/'' @ dl_filename dl) url]
             \<and> geo_sent w' = geo_sent w
             \<and> (\<forall>env' url' c' s'. normalize_url url' = normalize_url url \<longrightarrow>
                   handle_process env' \<lparr>rq_url = Some url', rq_chat_name = c', rq_sender = s'\<rparr> w' =
                     Some (Returned 200 [(''status'', JStr ''skipped''),
                                         (''message'', JStr ''Already processed'')], w')))
     \<and> map_of (analysed_entry env c s (is_likely_restaurant meta) dl [] None ''not_restaurant'')
           ''category'' = Some (JStr ''not_restaurant'')
     \<and> map_of (analysed_entry env c s (is_likely_restaurant meta) dl [] None ''not_restaurant'')
           ''restaurants_found'' = Some (JNum 0)
     \<and> map_of (analysed_entry env c s (is_likely_restaurant meta) dl [] None ''not_restaurant'')
           ''analysis_file'' = Some JNull
     \<and> map_of (analysed_entry env c s (is_likely_restaurant meta) dl [] None ''not_restaurant'')
           ''analysis_error'' = Some JNull"
proof -
  let ?fr = "is_likely_restaurant meta"
  let ?entry = "analysed_entry env c s ?fr dl [] None ''not_restaurant''"
  let ?t' = "tracker @ [(url, ?entry)]"
  let ?path = "''/tmp/tiktok_videos/'' @ dl_filename dl"
  let ?w' = "w1\<lparr>primary := Some ?t',
      backup := (if gcs_backup env = None then Some ?t' else backup w1),
      calls := calls w1 @ [ExtractMetadata url, DownloadVideo url, AnalyzeVideo ?path url]\<rparr>"
  have av: "analyze_video (gemini_api env) p x m z = Some (Inr [], z)" for p x m z
    using g by (rule analyze_video_not_json)
  obtain t0 x0 where l: "load_tracker (gcs_restore env) w = (Inr t0, x0)"
    "calls x0 = calls w" "geo_sent x0 = geo_sent w"
    by (rule load_tracker_cases [of "gcs_restore env" w]) blast
  with load(1) have w1: "calls w1 = calls w" "geo_sent w1 = geo_sent w"
    by simp_all
  have "handle_process env \<lparr>rq_url = Some url, rq_chat_name = c, rq_sender = s\<rparr> w =
      extract_and_filter env url c s tracker w1"
    using load by (rule handle_process_fresh)
  also have "\<dots> = download_and_analyze env url c s tracker meta ?fr
      (w1\<lparr>calls := calls w1 @ [ExtractMetadata url]\<rparr>)"
    using pre(1,2,3) by (rule on_filter_passed)
  also have "\<dots> = Some (Returned 200 (success_response ?fr dl [] ''not_restaurant''), ?w')"
    by (simp add: on_download_succeeded [OF pre(4)] av persist_and_respond_eq caught_def
        category_of_def update_not_duplicate [OF load(2)])
  finally have run: "handle_process env \<lparr>rq_url = Some url, rq_chat_name = c, rq_sender = s\<rparr> w =
      Some (Returned 200 (success_response ?fr dl [] ''not_restaurant''), ?w')" .
  have again: "handle_process env' \<lparr>rq_url = Some url', rq_chat_name = c', rq_sender = s'\<rparr> ?w' =
      Some (Returned 200 [(''status'', JStr ''skipped''), (''message'', JStr ''Already processed'')], ?w')"
    if "normalize_url url' = normalize_url url" for env' url' c' s'
  proof (rule handle_process_duplicate)
    show "load_tracker (gcs_restore env') ?w' = (Inr ?t', ?w')"
      by (simp add: load_tracker_primary)
    show "is_duplicate url' ?t'"
      using that by (simp add: is_duplicate_iff)
  qed
  have fields: "map_of ?entry ''category'' = Some (JStr ''not_restaurant'')"
    "map_of ?entry ''restaurants_found'' = Some (JNum 0)"
    "map_of ?entry ''analysis_file'' = Some JNull"
    "map_of ?entry ''analysis_error'' = Some JNull"
    by (simp_all add: analysed_entry_fields opt_str_def)
  have "primary ?w' = Some ?t'" "calls ?w' = calls w @ [ExtractMetadata url, DownloadVideo url,
      AnalyzeVideo ?path url]" "geo_sent ?w' = geo_sent w"
    using w1 by simp_all
  with run again have "\<exists>w'. handle_process env \<lparr>rq_url = Some url, rq_chat_name = c, rq_sender = s\<rparr> w =
               Some (Returned 200 (success_response ?fr dl [] ''not_restaurant''), w')
             \<and> primary w' = Some ?t'
             \<and> calls w' = calls w @ [ExtractMetadata url, DownloadVideo url, AnalyzeVideo ?path url]
             \<and> geo_sent w' = geo_sent w
             \<and> (\<forall>env' url' c' s'. normalize_url url' = normalize_url url \<longrightarrow>
                   handle_process env' \<lparr>rq_url = Some url', rq_chat_name = c', rq_sender = s'\<rparr> w' =
                     Some (Returned 200 [(''status'', JStr ''skipped''),
                                         (''message'', JStr ''Already processed'')], w'))"
    by (intro exI [of _ ?w']) blast
  with av fields show ?thesis
    by blast
qed

text \<open>C10 on the example submission, whose analysis answers with plain text after two
  polls, and a resubmission of an equivalent URL.\<close>

theorem invalid_json_not_restaurant_witness:
  "wait_while_processing (files_get (gemini_api (example_env (Inr ''PROCESSING'')))) 0 ''PROCESSING''
     = Some (Inr ''ACTIVE'')
   \<and> generate_content (gemini_api (example_env (Inr ''PROCESSING''))) = Inr ''Sorry, no restaurants here.''
   \<and> json_loads (gemini_api (example_env (Inr ''PROCESSING''))) ''Sorry, no restaurants here.'' = None
   \<and> is_likely_restaurant example_meta \<noteq> ''unlikely''
   \<and> analyze_video (gemini_api (example_env (Inr ''PROCESSING''))) ''/tmp/tiktok_videos/123.mp4''
         example_url None empty_world = Some (Inr [], empty_world)
   \<and> (\<exists>w'. handle_process (example_env (Inr ''PROCESSING'')) example_request empty_world =
               Some (Returned 200 (success_response ''likely'' example_dl [] ''not_restaurant''), w')
             \<and> primary w' = Some [(example_url,
                   analysed_entry (example_env (Inr ''PROCESSING'')) ''food'' ''sam'' ''likely''
                     example_dl [] None ''not_restaurant'')]
             \<and> calls w' = [ExtractMetadata example_url, DownloadVideo example_url,
                   AnalyzeVideo ''/tmp/tiktok_videos/123.mp4'' example_url]
             \<and> geo_sent w' = []
             \<and> handle_process (example_env (Inl (Exception ''quota'')))
                   \<lparr>rq_url = Some ''https://tiktok.com/@chef/video/123/#top'',
                    rq_chat_name = ''food'', rq_sender = ''alex''\<rparr> w' =
                 Some (Returned 200 [(''status'', JStr ''skipped''),
                                     (''message'', JStr ''Already processed'')], w'))"
proof -
  let ?env = "example_env (Inr ''PROCESSING'')"
  have g: "video_present (gemini_api ?env)" "client (gemini_api ?env) = None"
    "files_upload (gemini_api ?env) = Inr ''PROCESSING''"
    "wait_while_processing (files_get (gemini_api ?env)) 0 ''PROCESSING'' = Some (Inr ''ACTIVE'')"
    "generate_content (gemini_api ?env) = Inr ''Sorry, no restaurants here.''"
    "json_loads (gemini_api ?env) ''Sorry, no restaurants here.'' = None"
    by (simp_all add: example_env_def example_polling, simp_all add: example_gemini_def)
  have pre: "yt_info ?env example_url = Inr example_meta"
    "md_title example_meta = Some ''best ramen spot in Austin''"
    "is_likely_restaurant example_meta \<noteq> ''unlikely''"
    "yt_download ?env example_url = Inr example_dl"
    by (simp_all add: example_env_def example_filter, simp add: example_meta_def)
  have load: "load_tracker (gcs_restore ?env) empty_world = (Inr [], empty_world)"
    "\<not> is_duplicate example_url []"
    by (simp_all add: example_env_def example_load example_fresh)
  note T = invalid_json_not_restaurant [OF g pre load, where path = "''/tmp/tiktok_videos/123.mp4''"
      and u = example_url and md = None and v = empty_world and c = "''food''" and s = "''sam''"]
  from T have a: "analyze_video (gemini_api ?env) ''/tmp/tiktok_videos/123.mp4''
         example_url None empty_world = Some (Inr [], empty_world)"
    by (rule conjunct1)
  from T [THEN conjunct2, THEN conjunct1] obtain w' where w':
    "handle_process ?env \<lparr>rq_url = Some example_url, rq_chat_name = ''food'', rq_sender = ''sam''\<rparr>
       empty_world =
       Some (Returned 200 (success_response (is_likely_restaurant example_meta) example_dl []
               ''not_restaurant''), w')"
    "primary w' = Some ([] @ [(example_url, analysed_entry ?env ''food'' ''sam''
        (is_likely_restaurant example_meta) example_dl [] None ''not_restaurant'')])"
    "calls w' = calls empty_world @ [ExtractMetadata example_url, DownloadVideo example_url,
        AnalyzeVideo (''/tmp/tiktok_videos/'' @ dl_filename example_dl) example_url]"
    "geo_sent w' = geo_sent empty_world"
    "\<forall>env' url' c' s'. normalize_url url' = normalize_url example_url \<longrightarrow>
       handle_process env' \<lparr>rq_url = Some url', rq_chat_name = c', rq_sender = s'\<rparr> w' =
         Some (Returned 200 [(''status'', JStr ''skipped''),
                             (''message'', JStr ''Already processed'')], w')"
    by blast
  from w'(5) example_equivalent_url
  have again: "handle_process (example_env (Inl (Exception ''quota'')))
       \<lparr>rq_url = Some ''https://tiktok.com/@chef/video/123/#top'',
        rq_chat_name = ''food'', rq_sender = ''alex''\<rparr> w' =
         Some (Returned 200 [(''status'', JStr ''skipped''),
                             (''message'', JStr ''Already processed'')], w')"
    by blast
  from w'(1) have r1: "handle_process ?env example_request empty_world =
       Some (Returned 200 (success_response ''likely'' example_dl [] ''not_restaurant''), w')"
    by (simp add: example_filter example_request_def)
  from w'(2) have r2: "primary w' = Some [(example_url,
       analysed_entry ?env ''food'' ''sam'' ''likely'' example_dl [] None ''not_restaurant'')]"
    by (simp add: example_filter)
  from w'(3) have r3: "calls w' = [ExtractMetadata example_url, DownloadVideo example_url,
       AnalyzeVideo ''/tmp/tiktok_videos/123.mp4'' example_url]"
    by (simp add: empty_world_def example_dl_def)
  from w'(4) have r4: "geo_sent w' = []"
    by (simp add: empty_world_def)
  from g(4,5,6) pre(3) a r1 r2 r3 r4 again show ?thesis
    by blast
qed

end
